theory Spec2Isabelle
  imports Complex_Main
begin

section \<open>JavaScript values used by the gateway client\<close>

text \<open>
  The client is TypeScript running on a JavaScript engine. A string is modelled as a
  \<^typ>\<open>string\<close> holding its UTF-8 bytes: an ASCII character is one character of the
  model, any other code point (the Korean literals of the source, the non-ASCII white
  space that \<open>Number\<close> trims) is its byte sequence. A JavaScript number is \<open>NaN\<close>, an
  infinity or a finite double; a finite double is kept as the rational it denotes, and
  negative zero is identified with zero (the client only tests numbers with \<open>isNaN\<close>
  and \<open><=\<close> and prints them into a path, where the two zeros behave alike).
\<close>

datatype number = NaN | Finite rat | PosInfinity | NegInfinity

definition isNaN :: "number \<Rightarrow> bool" where
  "isNaN n = (n = NaN)"

text \<open>The relational operator \<open><=\<close> on numbers: false as soon as one side is \<open>NaN\<close>.\<close>

fun number_le :: "number \<Rightarrow> number \<Rightarrow> bool" where
  "number_le NaN _ = False"
| "number_le _ NaN = False"
| "number_le NegInfinity _ = True"
| "number_le _ PosInfinity = True"
| "number_le PosInfinity _ = False"
| "number_le _ NegInfinity = False"
| "number_le (Finite a) (Finite b) = (a \<le> b)"

datatype jsval =
    Undefined
  | Null
  | JBool bool
  | JNum number
  | JStr string
  | JArr "jsval list"
  | JObj "(string \<times> jsval) list"

text \<open>Truthiness, as \<open>if (x)\<close>, \<open>!x\<close> and \<open>x || y\<close> read a value.\<close>

fun truthy :: "jsval \<Rightarrow> bool" where
  "truthy Undefined = False"
| "truthy Null = False"
| "truthy (JBool b) = b"
| "truthy (JNum n) = (n \<noteq> NaN \<and> n \<noteq> Finite 0)"
| "truthy (JStr s) = (s \<noteq> [])"
| "truthy (JArr _) = True"
| "truthy (JObj _) = True"

text \<open>
  Object literals keep insertion order. \<open>{...o, k: v}\<close> overwrites an existing key in
  place and appends a new one.
\<close>

fun obj_set :: "string \<Rightarrow> jsval \<Rightarrow> (string \<times> jsval) list \<Rightarrow> (string \<times> jsval) list" where
  "obj_set k v [] = [(k, v)]"
| "obj_set k v ((k', v') # kvs) = (if k' = k then (k, v) # kvs else (k', v') # obj_set k v kvs)"

text \<open>Optional property access \<open>j?.k\<close>: \<open>undefined\<close> on \<open>null\<close>, on \<open>undefined\<close> and on a missing key.\<close>

fun get_prop :: "jsval \<Rightarrow> string \<Rightarrow> jsval" where
  "get_prop (JObj kvs) k = (case map_of kvs k of Some v \<Rightarrow> v | None \<Rightarrow> Undefined)"
| "get_prop _ k = Undefined"

subsection \<open>Strings\<close>

text \<open>\<open>s.split(c)\<close> for a one-character separator: always at least one segment.\<close>

fun split_on :: "char \<Rightarrow> string \<Rightarrow> string list" where
  "split_on c [] = [[]]"
| "split_on c (x # xs) =
     (if x = c then [] # split_on c xs
      else (case split_on c xs of
              [] \<Rightarrow> [[x]]
            | y # ys \<Rightarrow> (x # y) # ys))"

definition str_includes :: "string \<Rightarrow> char \<Rightarrow> bool" where
  "str_includes s c = (c \<in> set s)"

definition toUpperCaseChar :: "char \<Rightarrow> char" where
  "toUpperCaseChar c =
     (let n = (of_char c :: nat) in if 97 \<le> n \<and> n \<le> 122 then char_of (n - 32) else c)"

definition toUpperCase :: "string \<Rightarrow> string" where
  "toUpperCase s = map toUpperCaseChar s"

definition toLowerCaseChar :: "char \<Rightarrow> char" where
  "toLowerCaseChar c =
     (let n = (of_char c :: nat) in if 65 \<le> n \<and> n \<le> 90 then char_of (n + 32) else c)"

definition toLowerCase :: "string \<Rightarrow> string" where
  "toLowerCase s = map toLowerCaseChar s"

text \<open>\<open>s.substring(0, n)\<close>\<close>

definition substring0 :: "nat \<Rightarrow> string \<Rightarrow> string" where
  "substring0 n s = take n s"

text \<open>Decimal rendering of an integer, as a template literal prints an integral number.\<close>

definition digit_char :: "nat \<Rightarrow> char" where
  "digit_char d = char_of (48 + d)"

function string_of_nat :: "nat \<Rightarrow> string" where
  "string_of_nat n =
     (if n < 10 then [digit_char n] else string_of_nat (n div 10) @ [digit_char (n mod 10)])"
  by pat_completeness auto
termination
  by (relation "measure (\<lambda>n. n)") auto

definition string_of_int :: "int \<Rightarrow> string" where
  "string_of_int i = (if i < 0 then CHR ''-'' # string_of_nat (nat (- i)) else string_of_nat (nat i))"

subsection \<open>Rounding to a double\<close>

text \<open>
  A numeric literal denotes a mathematical value, which the engine rounds to the
  nearest double (IEEE 754 binary64, ties to even): 53 significant bits, no spacing
  below \<open>pow2 (- 1074)\<close>, and an infinity when the rounded value reaches \<open>pow2 1024\<close>
  (its binary exponent is then at least 1024).
\<close>

function bit_length :: "int \<Rightarrow> int" where
  "bit_length n = (if n \<le> 0 then 0 else 1 + bit_length (n div 2))"
  by pat_completeness auto
termination
  by (relation "measure nat") auto

definition pow2 :: "int \<Rightarrow> rat" where
  "pow2 e = (if 0 \<le> e then 2 ^ nat e else 1 / 2 ^ nat (- e))"

definition round_half_even :: "rat \<Rightarrow> int" where
  "round_half_even x =
     (let f = \<lfloor>x\<rfloor>; r = x - of_int f
      in if r < 1 / 2 then f
         else if 1 / 2 < r then f + 1
         else if even f then f else f + 1)"

text \<open>The binary exponent \<open>d\<close> of a positive rational: \<open>pow2 d \<le> x < pow2 (d + 1)\<close>.\<close>

definition floor_log2 :: "rat \<Rightarrow> int" where
  "floor_log2 x =
     (let (p, q) = quotient_of x;
          d = bit_length p - bit_length q
      in if pow2 d \<le> x then d else d - 1)"

definition round_positive :: "rat \<Rightarrow> number" where
  "round_positive x =
     (let e = max (floor_log2 x - 52) (- 1074);
          v = of_int (round_half_even (x / pow2 e)) * pow2 e
      in if 1024 \<le> floor_log2 v then PosInfinity else Finite v)"

definition to_double :: "rat \<Rightarrow> number" where
  "to_double x =
     (if x = 0 then Finite 0
      else if 0 < x then round_positive x
      else (case round_positive (- x) of
              Finite v \<Rightarrow> Finite (- v)
            | PosInfinity \<Rightarrow> NegInfinity
            | other \<Rightarrow> other))"

subsection \<open>\<open>Number(string)\<close>\<close>

text \<open>
  The conversion of a string to a number (ECMAScript \<open>StringToNumber\<close>): white space and
  line terminators are trimmed at both ends; the empty string is \<open>0\<close>; a decimal literal
  may carry a sign, a fraction and an exponent; \<open>Infinity\<close> may carry a sign; \<open>0x\<close>, \<open>0o\<close>
  and \<open>0b\<close> literals carry no sign; everything else is \<open>NaN\<close>. The value of a literal is
  rounded to a double.

  The trimmed characters are those of \<open>StrWhiteSpaceChar\<close>, here as UTF-8 byte sequences:
  tab, line feed, vertical tab, form feed, carriage return, space, U+00A0, U+1680,
  U+2000 to U+200A, U+2028, U+2029, U+202F, U+205F, U+3000 and U+FEFF.
\<close>

definition white_space :: "string list" where
  "white_space =
     [[CHR 0x09], [CHR 0x0A], [CHR 0x0B], [CHR 0x0C], [CHR 0x0D], [CHR 0x20],
      [CHR 0xC2, CHR 0xA0],
      [CHR 0xE1, CHR 0x9A, CHR 0x80],
      [CHR 0xE2, CHR 0x80, CHR 0x80], [CHR 0xE2, CHR 0x80, CHR 0x81], [CHR 0xE2, CHR 0x80, CHR 0x82],
      [CHR 0xE2, CHR 0x80, CHR 0x83], [CHR 0xE2, CHR 0x80, CHR 0x84], [CHR 0xE2, CHR 0x80, CHR 0x85],
      [CHR 0xE2, CHR 0x80, CHR 0x86], [CHR 0xE2, CHR 0x80, CHR 0x87], [CHR 0xE2, CHR 0x80, CHR 0x88],
      [CHR 0xE2, CHR 0x80, CHR 0x89], [CHR 0xE2, CHR 0x80, CHR 0x8A], [CHR 0xE2, CHR 0x80, CHR 0xA8],
      [CHR 0xE2, CHR 0x80, CHR 0xA9], [CHR 0xE2, CHR 0x80, CHR 0xAF], [CHR 0xE2, CHR 0x81, CHR 0x9F],
      [CHR 0xE3, CHR 0x80, CHR 0x80], [CHR 0xEF, CHR 0xBB, CHR 0xBF]]"

definition starts_with :: "string \<Rightarrow> string \<Rightarrow> bool" where
  "starts_with s p = (p \<noteq> [] \<and> take (length p) s = p)"

text \<open>Drops every leading occurrence of one of the patterns.\<close>

function drop_leading :: "string list \<Rightarrow> string \<Rightarrow> string" where
  "drop_leading ps s =
     (case find (starts_with s) ps of
        None \<Rightarrow> s
      | Some p \<Rightarrow> drop_leading ps (drop (length p) s))"
  by pat_completeness auto
termination
proof (relation "measure (\<lambda>(ps, s). length s)", goal_cases)
  case 1
  show ?case by simp
next
  case (2 ps s p)
  then have "p \<noteq> []" "take (length p) s = p"
    by (auto simp: find_Some_iff starts_with_def)
  then have "s \<noteq> []" by auto
  with \<open>p \<noteq> []\<close> show ?case by simp
qed

definition trim :: "string \<Rightarrow> string" where
  "trim s = rev (drop_leading (map rev white_space) (rev (drop_leading white_space s)))"

definition isDigit :: "char \<Rightarrow> bool" where
  "isDigit c = (let n = (of_char c :: nat) in 48 \<le> n \<and> n \<le> 57)"

text \<open>The value of a digit in a base up to 16, if the character is one.\<close>

definition digit_value :: "nat \<Rightarrow> char \<Rightarrow> nat option" where
  "digit_value base c =
     (let n = (of_char c :: nat);
          v = (if 48 \<le> n \<and> n \<le> 57 then Some (n - 48)
               else if 97 \<le> n \<and> n \<le> 102 then Some (n - 87)
               else if 65 \<le> n \<and> n \<le> 70 then Some (n - 55)
               else None)
      in case v of None \<Rightarrow> None | Some d \<Rightarrow> if d < base then Some d else None)"

fun digits_value :: "nat \<Rightarrow> int \<Rightarrow> string \<Rightarrow> int option" where
  "digits_value base acc [] = Some acc"
| "digits_value base acc (c # cs) =
     (case digit_value base c of
        None \<Rightarrow> None
      | Some d \<Rightarrow> digits_value base (acc * int base + int d) cs)"

text \<open>A non-empty run of digits of the base, and nothing else.\<close>

definition radix_literal :: "nat \<Rightarrow> string \<Rightarrow> number" where
  "radix_literal base ds =
     (if ds = [] then NaN
      else case digits_value base 0 ds of None \<Rightarrow> NaN | Some v \<Rightarrow> to_double (of_int v))"

text \<open>\<open>ExponentPart\<close>: \<open>e\<close> or \<open>E\<close>, an optional sign, at least one digit, up to the end.\<close>

definition exponent_part :: "string \<Rightarrow> int option" where
  "exponent_part s =
     (case s of
        [] \<Rightarrow> Some 0
      | c # r \<Rightarrow>
          if c = CHR ''e'' \<or> c = CHR ''E'' then
            (let (neg, ds) = (case r of
                                [] \<Rightarrow> (False, [])
                              | d # r' \<Rightarrow>
                                  if d = CHR ''-'' then (True, r')
                                  else if d = CHR ''+'' then (False, r')
                                  else (False, r))
             in if ds = [] then None
                else case digits_value 10 0 ds of
                       None \<Rightarrow> None
                     | Some v \<Rightarrow> Some (if neg then - v else v))
          else None)"

definition pow10 :: "int \<Rightarrow> rat" where
  "pow10 e = (if 0 \<le> e then 10 ^ nat e else 1 / 10 ^ nat (- e))"

text \<open>\<open>StrUnsignedDecimalLiteral\<close>, with the sign already taken off.\<close>

definition unsigned_decimal :: "bool \<Rightarrow> string \<Rightarrow> number" where
  "unsigned_decimal neg s =
     (if s = ''Infinity'' then (if neg then NegInfinity else PosInfinity)
      else
        let ip = takeWhile isDigit s;
            r1 = dropWhile isDigit s;
            (fp, r2, dot) = (case r1 of
                               [] \<Rightarrow> ([], [], False)
                             | c # r \<Rightarrow>
                                 if c = CHR ''.'' then (takeWhile isDigit r, dropWhile isDigit r, True)
                                 else ([], r1, False))
        in if ip = [] \<and> fp = [] then NaN
           else case (digits_value 10 0 (ip @ fp), exponent_part r2) of
                  (Some m, Some e) \<Rightarrow>
                    let v = of_int m * pow10 (e - int (length fp))
                    in to_double (if neg then - v else v)
                | _ \<Rightarrow> NaN)"

definition Number :: "string \<Rightarrow> number" where
  "Number str =
     (let s = trim str in
      if s = [] then Finite 0
      else if take 2 s = ''0x'' \<or> take 2 s = ''0X'' then radix_literal 16 (drop 2 s)
      else if take 2 s = ''0o'' \<or> take 2 s = ''0O'' then radix_literal 8 (drop 2 s)
      else if take 2 s = ''0b'' \<or> take 2 s = ''0B'' then radix_literal 2 (drop 2 s)
      else case s of
             [] \<Rightarrow> Finite 0
           | c # r \<Rightarrow>
               if c = CHR ''-'' then unsigned_decimal True r
               else if c = CHR ''+'' then unsigned_decimal False r
               else unsigned_decimal False s)"

section \<open>The transport and the process state\<close>

text \<open>
  A request path is a template literal; a substituted number is kept as a number, so
  that no rendering of non-integral values has to be chosen.
\<close>

datatype part = Lit string | Val number

type_synonym url = "part list"

text \<open>
  The axios request configuration: \<open>method\<close> and \<open>params\<close> may be absent;
  \<open>retriedOnce\<close> is the \<open>_retriedOnce\<close> flag the response interceptor adds.
\<close>

record config =
  meth :: "string option"
  url :: url
  params :: "(string \<times> jsval) list option"
  headers :: "(string \<times> jsval) list"
  data :: jsval
  retriedOnce :: bool

datatype channel = Axios | Fetch

datatype body = Unparsable string | Parsed jsval

datatype outcome = NetworkError | Response nat body

record response =
  resp_status :: nat
  resp_data :: jsval

datatype error =
    Error string
  | AxiosError "nat option" jsval config
  | TypeError
  | SyntaxError

text \<open>
  The state of one browser process and of its environment: the module variable
  \<open>CSRF_TOKEN\<close> of the session variant, the \<open>authToken\<close> entry of \<open>localStorage\<close> and
  whether \<open>window\<close> exists for the bearer variant, the readings \<open>Date.now()\<close> will
  give (\<open>now\<close> is the next one, \<open>later\<close> the ones after it; the last reading stays once
  they are used up), the outcomes the network will give to the calls to come, in the
  order of the calls (no outcome left means no response), and the calls made so far.
\<close>

record world =
  CSRF_TOKEN :: jsval
  authToken :: "string option"
  hasWindow :: bool
  now :: int
  later :: "int list"
  script :: "outcome list"
  sent :: "(channel \<times> config) list"

definition Date_now :: "world \<Rightarrow> int \<times> world" where
  "Date_now w = (now w, case later w of [] \<Rightarrow> w | t # ts \<Rightarrow> w\<lparr>now := t, later := ts\<rparr>)"

definition network :: "channel \<Rightarrow> config \<Rightarrow> world \<Rightarrow> outcome \<times> world" where
  "network ch c w =
     (case script w of
        [] \<Rightarrow> (NetworkError, w\<lparr>sent := sent w @ [(ch, c)]\<rparr>)
      | out # rest \<Rightarrow> (out, w\<lparr>script := rest, sent := sent w @ [(ch, c)]\<rparr>))"

subsection \<open>\<open>fetch\<close>\<close>

definition fetch_config :: "string \<Rightarrow> config" where
  "fetch_config path =
     \<lparr>meth = None, url = [Lit path], params = None, headers = [], data = Undefined,
      retriedOnce = False\<rparr>"

text \<open>\<open>fetch(path, { credentials: 'include' })\<close> rejects only when no response comes.\<close>

definition fetch :: "string \<Rightarrow> world \<Rightarrow> (error + nat \<times> body) \<times> world" where
  "fetch path w =
     (case network Fetch (fetch_config path) w of
        (NetworkError, w') \<Rightarrow> (Inl TypeError, w')
      | (Response st b, w') \<Rightarrow> (Inr (st, b), w'))"

definition ok :: "nat \<Rightarrow> bool" where
  "ok st = (200 \<le> st \<and> st \<le> 299)"

definition json :: "body \<Rightarrow> error + jsval" where
  "json b = (case b of Unparsable _ \<Rightarrow> Inl SyntaxError | Parsed j \<Rightarrow> Inr j)"

subsection \<open>axios\<close>

text \<open>The adapter: a status outside 2xx and a missing response both reject.\<close>

definition axios_data :: "body \<Rightarrow> jsval" where
  "axios_data b = (case b of Unparsable s \<Rightarrow> JStr s | Parsed j \<Rightarrow> j)"

definition dispatchRequest :: "config \<Rightarrow> world \<Rightarrow> (error + response) \<times> world" where
  "dispatchRequest c w =
     (case network Axios c w of
        (NetworkError, w') \<Rightarrow> (Inl (AxiosError None Undefined c), w')
      | (Response st b, w') \<Rightarrow>
          if ok st then (Inr \<lparr>resp_status = st, resp_data = axios_data b\<rparr>, w')
          else (Inl (AxiosError (Some st) (axios_data b) c), w'))"

definition default_headers :: "(string \<times> jsval) list" where
  "default_headers =
     [(''Content-Type'', JStr ''application/json''), (''Accept'', JStr ''application/json'')]"

definition request_config ::
  "string \<Rightarrow> url \<Rightarrow> (string \<times> jsval) list option \<Rightarrow> jsval \<Rightarrow> config" where
  "request_config m u ps d =
     \<lparr>meth = Some m, url = u, params = ps, headers = default_headers, data = d,
      retriedOnce = False\<rparr>"

section \<open>The session variant: CSRF token, request pipeline, recovery\<close>

definition isSafeMethod :: "string option \<Rightarrow> bool" where
  "isSafeMethod m =
     (toUpperCase (case m of None \<Rightarrow> ''GET'' | Some s \<Rightarrow> if s = [] then ''GET'' else s)
        \<in> set [''GET'', ''HEAD'', ''OPTIONS''])"

text \<open>
  One candidate endpoint of \<open>fetchCsrfToken\<close>: the call, the \<open>ok\<close> test, \<open>json()\<close> and
  the \<open>j?.token\<close> test. \<open>Inr (Some t)\<close> is \<open>return t\<close>, \<open>Inr None\<close> falls through,
  \<open>Inl e\<close> is an exception.
\<close>

definition csrf_candidate :: "string \<Rightarrow> world \<Rightarrow> (error + jsval option) \<times> world" where
  "csrf_candidate path w =
     (case fetch path w of
        (Inl e, w') \<Rightarrow> (Inl e, w')
      | (Inr (st, b), w') \<Rightarrow>
          if ok st then
            (case json b of
               Inl e \<Rightarrow> (Inl e, w')
             | Inr j \<Rightarrow>
                 if truthy (get_prop j ''token'') then (Inr (Some (get_prop j ''token'')), w')
                 else (Inr None, w'))
          else (Inr None, w'))"

text \<open>
  The first candidate runs inside \<open>try { } catch {}\<close>: its exceptions are dropped.
  The second does not: its exceptions leave \<open>fetchCsrfToken\<close> as they are.
\<close>

definition fetchCsrfToken :: "world \<Rightarrow> (error + jsval) \<times> world" where
  "fetchCsrfToken w =
     (case csrf_candidate ''/api/csrf'' w of
        (Inr (Some t), w1) \<Rightarrow> (Inr t, w1)
      | (_, w1) \<Rightarrow>
          (case csrf_candidate ''/csrf'' w1 of
             (Inr (Some t), w2) \<Rightarrow> (Inr t, w2)
           | (Inr None, w2) \<Rightarrow> (Inl (Error ''CSRF token endpoint not reachable''), w2)
           | (Inl e, w2) \<Rightarrow> (Inl e, w2)))"

text \<open>\<open>config.params || {}\<close>, and the number \<open>Date.now()\<close> gave.\<close>

definition query_params :: "config \<Rightarrow> (string \<times> jsval) list" where
  "query_params c = (case params c of None \<Rightarrow> [] | Some ps \<Rightarrow> ps)"

definition stamp :: "int \<Rightarrow> jsval" where
  "stamp t = JNum (Finite (of_int t))"

definition cache_bust :: "int \<Rightarrow> config \<Rightarrow> config" where
  "cache_bust t c = c\<lparr>params := Some (obj_set ''_t'' (stamp t) (query_params c))\<rparr>"

definition request_interceptor_session :: "config \<Rightarrow> world \<Rightarrow> (error + config) \<times> world" where
  "request_interceptor_session cfg w =
     (let (t, w1) = Date_now w;
          c1 = cache_bust t cfg
      in if \<not> isSafeMethod (meth c1) then
           (case (if \<not> truthy (CSRF_TOKEN w1) then
                    (case fetchCsrfToken w1 of
                       (Inl e, w2) \<Rightarrow> (Inl e, w2)
                     | (Inr t, w2) \<Rightarrow> (Inr (), w2\<lparr>CSRF_TOKEN := t\<rparr>))
                  else (Inr (), w1)) of
              (Inl e, w2) \<Rightarrow> (Inl e, w2)
            | (Inr _, w2) \<Rightarrow>
                (Inr (c1\<lparr>headers := obj_set ''X-CSRF-TOKEN'' (CSRF_TOKEN w2) (headers c1)\<rparr>), w2))
         else (Inr c1, w1))"

subsection \<open>The client with its two interceptors\<close>

text \<open>\<open>error.config\<close>: only an axios error carries the configuration of its request.\<close>

fun error_config :: "error \<Rightarrow> config option" where
  "error_config (AxiosError st d c) = Some c"
| "error_config _ = None"

lemma csrf_candidate_error:
  "csrf_candidate path w = (Inl e, w') \<Longrightarrow> error_config e = None"
  by (auto simp: csrf_candidate_def fetch_def json_def
      split: prod.splits outcome.splits if_splits sum.splits body.splits)

lemma fetchCsrfToken_error:
  "fetchCsrfToken w = (Inl e, w') \<Longrightarrow> error_config e = None"
  by (auto simp: fetchCsrfToken_def dest: csrf_candidate_error
      split: prod.splits sum.splits option.splits)

lemma request_interceptor_session_error:
  "request_interceptor_session cfg w = (Inl e, w') \<Longrightarrow> error_config e = None"
  by (auto simp: request_interceptor_session_def Let_def dest: fetchCsrfToken_error
      split: prod.splits sum.splits if_splits)

lemma request_interceptor_session_retriedOnce:
  "request_interceptor_session cfg w = (Inr c, w') \<Longrightarrow> retriedOnce c = retriedOnce cfg"
  by (auto simp: request_interceptor_session_def Let_def cache_bust_def
      split: prod.splits sum.splits if_splits)

lemma dispatchRequest_error:
  "dispatchRequest c w = (Inl e, w') \<Longrightarrow> error_config e = Some c"
  by (auto simp: dispatchRequest_def split: prod.splits outcome.splits if_splits)

text \<open>
  \<open>apiClient(config)\<close> runs the request interceptor, the adapter and, on any rejection
  (also one of the request interceptor), the rejection handler of the response
  interceptor. That handler calls \<open>apiClient(original)\<close> again; its \<open>catch {}\<close> covers
  the awaited \<open>fetchCsrfToken()\<close> only, since the retried call is returned without
  \<open>await\<close>, and the handler then throws the error it was given, whose \<open>config\<close> is the
  object it has just marked.
\<close>

function apiClient_session :: "config \<Rightarrow> world \<Rightarrow> (error + response) \<times> world"
  and response_rejected :: "error \<Rightarrow> world \<Rightarrow> (error + response) \<times> world" where
  "apiClient_session cfg w =
     (case request_interceptor_session cfg w of
        (Inl e, w1) \<Rightarrow> response_rejected e w1
      | (Inr c1, w1) \<Rightarrow>
          (case dispatchRequest c1 w1 of
             (Inr r, w2) \<Rightarrow> (Inr r, w2)
           | (Inl e, w2) \<Rightarrow> response_rejected e w2))"
| "response_rejected err w =
     (case err of
        AxiosError st d original \<Rightarrow>
          if st = Some 403 \<and> \<not> retriedOnce original \<and> \<not> isSafeMethod (meth original) then
            (let original1 = original\<lparr>retriedOnce := True\<rparr>;
                 w1 = w\<lparr>CSRF_TOKEN := Null\<rparr>
             in case fetchCsrfToken w1 of
                  (Inl _, w2) \<Rightarrow> (Inl (AxiosError st d original1), w2)
                | (Inr t, w2) \<Rightarrow>
                    apiClient_session
                      (original1\<lparr>headers := obj_set ''X-CSRF-TOKEN'' t (headers original1)\<rparr>)
                      (w2\<lparr>CSRF_TOKEN := t\<rparr>))
          else (Inl err, w)
      | _ \<Rightarrow> (Inl err, w))"
  by pat_completeness auto


termination
proof (relation "measure (\<lambda>x. case x of
           Inl (cfg, w) \<Rightarrow> if retriedOnce cfg then 1 else 3
         | Inr (err, w) \<Rightarrow> (case error_config err of
                             Some c \<Rightarrow> if retriedOnce c then 0 else 2
                           | None \<Rightarrow> 0))", goal_cases)
  case 1
  show ?case by simp
next
  case (2 cfg w x y a)
  then have "error_config a = None"
    by (metis request_interceptor_session_error)
  then show ?case by simp
next
  case (3 cfg w x y b xa ya a)
  then have "error_config a = Some b" "retriedOnce b = retriedOnce cfg"
    by (metis dispatchRequest_error, metis request_interceptor_session_retriedOnce)
  then show ?case by simp
next
  case (4 err w x21 x22 x23 x xa xb y b)
  then show ?case by simp
qed

declare apiClient_session.simps [simp del] response_rejected.simps [simp del]


section \<open>The bearer variant\<close>

definition request_interceptor_bearer :: "config \<Rightarrow> world \<Rightarrow> config \<times> world" where
  "request_interceptor_bearer cfg w =
     (let token = (if hasWindow w then authToken w else None);
          c1 = (case token of
                  None \<Rightarrow> cfg
                | Some tk \<Rightarrow>
                    if tk \<noteq> [] then
                      cfg\<lparr>headers := obj_set ''Authorization'' (JStr (''Bearer '' @ tk)) (headers cfg)\<rparr>
                    else cfg);
          (t, w1) = Date_now w
      in (cache_bust t c1, w1))"

definition apiClient_bearer :: "config \<Rightarrow> world \<Rightarrow> (error + response) \<times> world" where
  "apiClient_bearer cfg w =
     (case request_interceptor_bearer cfg w of (c1, w1) \<Rightarrow> dispatchRequest c1 w1)"

section \<open>Resource accessors\<close>

text \<open>
  The two client files define the same accessors over their own \<open>apiClient\<close>; the
  variant says which client is meant.
\<close>

datatype variant = Bearer | Session

definition apiClient :: "variant \<Rightarrow> config \<Rightarrow> world \<Rightarrow> (error + response) \<times> world" where
  "apiClient v cfg w =
     (case v of Bearer \<Rightarrow> apiClient_bearer cfg w | Session \<Rightarrow> apiClient_session cfg w)"

text \<open>\<open>handleResponse(await p)\<close>: the \<open>data\<close> of the response, or the exception of \<open>p\<close>.\<close>

definition handleResponse :: "(error + response) \<times> world \<Rightarrow> (error + jsval) \<times> world" where
  "handleResponse r =
     (case r of (Inl e, w) \<Rightarrow> (Inl e, w) | (Inr resp, w) \<Rightarrow> (Inr (resp_data resp), w))"

subsection \<open>Orders addressed by a composite identifier\<close>

text \<open>\<open>Number(x)\<close> where \<open>x\<close> may be \<open>undefined\<close>.\<close>

definition Number_opt :: "string option \<Rightarrow> number" where
  "Number_opt x = (case x of None \<Rightarrow> NaN | Some s \<Rightarrow> Number s)"

text \<open>\<open>s.split('-')[0]\<close>\<close>

definition first_segment :: "string \<Rightarrow> string option" where
  "first_segment s = (case split_on CHR ''-'' s of [] \<Rightarrow> None | x # _ \<Rightarrow> Some x)"

definition invalid_status_id :: "variant \<Rightarrow> string" where
  "invalid_status_id v =
     (case v of Bearer \<Rightarrow> ''Invalid order ID''
              | Session \<Rightarrow> ''Invalid order ID provided for status update.'')"

definition invalid_cancel_id :: "variant \<Rightarrow> string" where
  "invalid_cancel_id v =
     (case v of Bearer \<Rightarrow> ''Invalid order ID''
              | Session \<Rightarrow> ''Invalid order ID provided for cancellation.'')"

definition invalid_record_id :: "variant \<Rightarrow> string" where
  "invalid_record_id v =
     (case v of Bearer \<Rightarrow> ''Invalid InOut record ID''
              | Session \<Rightarrow> ''Invalid InOut record ID provided for update.'')"

definition updateOrderStatus ::
  "variant \<Rightarrow> string \<Rightarrow> string \<Rightarrow> world \<Rightarrow> (error + jsval) \<times> world" where
  "updateOrderStatus v orderId status w =
     (let numericOrderId = Number_opt (first_segment orderId)
      in if isNaN numericOrderId then (Inl (Error (invalid_status_id v)), w)
         else handleResponse
                (apiClient v
                   (request_config ''put''
                      [Lit ''/api/inout/orders/'', Val numericOrderId, Lit ''/status''] None
                      (JObj [(''status'', JStr (toUpperCase status))]))
                   w))"

datatype id_arg = IdString string | IdNumber number

definition cancelInOutOrder :: "variant \<Rightarrow> id_arg \<Rightarrow> world \<Rightarrow> (error + jsval) \<times> world" where
  "cancelInOutOrder v orderId w =
     (let numericOrderId = (case orderId of
                              IdString s \<Rightarrow> Number_opt (first_segment s)
                            | IdNumber n \<Rightarrow> n)
      in if isNaN numericOrderId then (Inl (Error (invalid_cancel_id v)), w)
         else handleResponse
                (apiClient v
                   (request_config ''put''
                      [Lit ''/api/inout/orders/'', Val numericOrderId, Lit ''/cancel''] None
                      Undefined)
                   w))"

text \<open>\<open>e?.response?.status === 405\<close>\<close>

definition is405 :: "error \<Rightarrow> bool" where
  "is405 e = (case e of AxiosError st _ _ \<Rightarrow> st = Some 405 | _ \<Rightarrow> False)"

definition updateInOutRecord ::
  "variant \<Rightarrow> string \<Rightarrow> jsval \<Rightarrow> world \<Rightarrow> (error + jsval) \<times> world" where
  "updateInOutRecord v ident recordData w =
     (let orderId = (if str_includes ident CHR ''-'' then first_segment ident else Some ident);
          numericOrderId = Number_opt orderId
      in if isNaN numericOrderId then (Inl (Error (invalid_record_id v)), w)
         else
           (case handleResponse
                   (apiClient v
                      (request_config ''put''
                         [Lit ''/api/inout/orders/'', Val numericOrderId, Lit ''/status''] None
                         recordData)
                      w) of
              (Inr r, w1) \<Rightarrow> (Inr r, w1)
            | (Inl e, w1) \<Rightarrow>
                if is405 e then
                  (case handleResponse
                          (apiClient v
                             (request_config ''patch''
                                [Lit ''/api/inout/orders/'', Val numericOrderId] None recordData)
                             w1) of
                     (Inr r, w2) \<Rightarrow> (Inr r, w2)
                   | (Inl e2, w2) \<Rightarrow>
                       if is405 e2 then
                         handleResponse
                           (apiClient v
                              (request_config ''put''
                                 [Lit ''/api/inout/orders/'', Val numericOrderId] None recordData)
                              w2)
                       else (Inl e2, w2))
                else (Inl e, w1)))"

subsection \<open>Plain reads\<close>

definition api_get ::
  "variant \<Rightarrow> string \<Rightarrow> (string \<times> jsval) list option \<Rightarrow> world \<Rightarrow> (error + jsval) \<times> world" where
  "api_get v path ps w =
     handleResponse (apiClient v (request_config ''get'' [Lit path] ps Undefined) w)"

definition fetchDashboardSummary :: "variant \<Rightarrow> world \<Rightarrow> (error + jsval) \<times> world" where
  "fetchDashboardSummary v w = api_get v ''/api/dashboard/summary'' None w"

definition fetchItems :: "variant \<Rightarrow> world \<Rightarrow> (error + jsval) \<times> world" where
  "fetchItems v w = api_get v ''/api/items'' None w"

definition fetchRawInOutData :: "variant \<Rightarrow> world \<Rightarrow> (error + jsval) \<times> world" where
  "fetchRawInOutData v w = api_get v ''/api/inout/orders'' None w"

definition fetchRawInventoryData :: "variant \<Rightarrow> world \<Rightarrow> (error + jsval) \<times> world" where
  "fetchRawInventoryData v w = api_get v ''/api/inventory'' None w"

definition fetchSchedules ::
  "variant \<Rightarrow> string option \<Rightarrow> string option \<Rightarrow> world \<Rightarrow> (error + jsval) \<times> world" where
  "fetchSchedules v startDate endDate w =
     (let p0 = [];
          p1 = (case startDate of
                  None \<Rightarrow> p0
                | Some d \<Rightarrow> if d \<noteq> [] then obj_set ''start_date'' (JStr d) p0 else p0);
          p2 = (case endDate of
                  None \<Rightarrow> p1
                | Some d \<Rightarrow> if d \<noteq> [] then obj_set ''end_date'' (JStr d) p1 else p1)
      in api_get v ''/api/schedules'' (Some p2) w)"

subsection \<open>Users\<close>

text \<open>
  Locale formatting is the engine's and a parameter of the model:
  \<open>new Date(x).toLocaleString('ko-KR')\<close>, the same with the options of \<open>fetchUsers\<close>
  (two-digit month, day, hour and minute), \<open>new Date(x).toLocaleDateString('ko-KR')\<close>,
  the same of \<open>new Date()\<close>, and \<open>new Date().toISOString()\<close>.
\<close>

record intl =
  toLocaleString :: "jsval \<Rightarrow> string"
  toLocaleStringMinutes :: "jsval \<Rightarrow> string"
  toLocaleDateString :: "jsval \<Rightarrow> string"
  todayLocaleDateString :: string
  nowISOString :: string

text \<open>The UTF-8 bytes of the label shown for a user who never logged in.\<close>

definition no_login_record :: string where
  "no_login_record =
     map char_of [0xEC, 0xA0, 0x91, 0xEC, 0x86, 0x8D, 0x20, 0xEA, 0xB8, 0xB0, 0xEB, 0xA1, 0x9D,
                  0x20, 0xEC, 0x97, 0x86, 0xEC, 0x9D, 0x8C :: nat]"

text \<open>\<open>xs.map(f)\<close> where \<open>f\<close> may throw: the first exception leaves the loop.\<close>

fun map_throwing :: "('a \<Rightarrow> error + 'b) \<Rightarrow> 'a list \<Rightarrow> error + 'b list" where
  "map_throwing f [] = Inr []"
| "map_throwing f (x # xs) =
     (case f x of
        Inl e \<Rightarrow> Inl e
      | Inr y \<Rightarrow> (case map_throwing f xs of Inl e \<Rightarrow> Inl e | Inr ys \<Rightarrow> Inr (y # ys)))"

text \<open>The callback of \<open>fetchUsers\<close>; reading a property of \<open>null\<close> or \<open>undefined\<close> throws.\<close>

definition to_user :: "intl \<Rightarrow> jsval \<Rightarrow> error + jsval" where
  "to_user fmt u =
     (if u = Null \<or> u = Undefined then Inl TypeError
      else Inr (JObj
        [(''id'', get_prop u ''userId''),
         (''username'', get_prop u ''username''),
         (''email'', get_prop u ''email''),
         (''fullName'', get_prop u ''fullName''),
         (''role'', get_prop u ''role''),
         (''status'', get_prop u ''status''),
         (''lastLogin'',
            if truthy (get_prop u ''lastLogin'')
            then JStr (toLocaleStringMinutes fmt (get_prop u ''lastLogin''))
            else JStr no_login_record),
         (''createdAt'',
            if truthy (get_prop u ''joinedAt'')
            then JStr (toLocaleDateString fmt (get_prop u ''joinedAt''))
            else JStr (todayLocaleDateString fmt))]))"

text \<open>\<open>backendUsers.map\<close> exists on arrays only.\<close>

definition fetchUsers :: "variant \<Rightarrow> intl \<Rightarrow> world \<Rightarrow> (error + jsval list) \<times> world" where
  "fetchUsers v fmt w =
     (case api_get v ''/api/users'' None w of
        (Inl e, w1) \<Rightarrow> (Inl e, w1)
      | (Inr backendUsers, w1) \<Rightarrow>
          (case backendUsers of
             JArr us \<Rightarrow> (map_throwing (to_user fmt) us, w1)
           | _ \<Rightarrow> (Inl TypeError, w1)))"

section \<open>The dashboard aggregator\<close>

text \<open>The own enumerable properties \<open>{...x}\<close> copies.\<close>

definition spread :: "jsval \<Rightarrow> (string \<times> jsval) list" where
  "spread x =
     (case x of
        JObj kvs \<Rightarrow> kvs
      | JArr xs \<Rightarrow> zip (map string_of_nat [0..<length xs]) xs
      | JStr s \<Rightarrow> zip (map string_of_nat [0..<length s]) (map (\<lambda>c. JStr [c]) s)
      | _ \<Rightarrow> [])"

definition elapsed :: "int \<Rightarrow> int \<Rightarrow> jsval" where
  "elapsed t start = stamp (t - start)"

text \<open>The user entries of the fallback snapshot, built from what \<open>fetchUsers\<close> returned.\<close>

definition dashboard_user :: "jsval \<Rightarrow> jsval" where
  "dashboard_user u =
     JObj [(''userId'', get_prop u ''id''),
           (''username'', get_prop u ''username''),
           (''email'', get_prop u ''email''),
           (''fullName'', get_prop u ''fullName''),
           (''role'', get_prop u ''role''),
           (''status'', get_prop u ''status'')]"

text \<open>
  \<open>Promise.all\<close> of the six reads. All six are started, in the order written, before
  any of them settles; the model gives the \<open>k\<close>-th outcome of the network to the \<open>k\<close>-th
  of them. When several reject, \<open>Promise.all\<close> rejects with the one that settled first
  in time; arrival times are not modelled and the first in the order written is taken.
\<close>

record six_reads =
  r_items :: jsval
  r_users :: "jsval list"
  r_orders :: jsval
  r_inventory :: jsval
  r_schedules :: jsval
  r_summary :: jsval

definition all_six :: "variant \<Rightarrow> intl \<Rightarrow> world \<Rightarrow> (error + six_reads) \<times> world" where
  "all_six v fmt w =
     (let (a1, w1) = fetchItems v w;
          (a2, w2) = fetchUsers v fmt w1;
          (a3, w3) = fetchRawInOutData v w2;
          (a4, w4) = fetchRawInventoryData v w3;
          (a5, w5) = fetchSchedules v None None w4;
          (a6, w6) = fetchDashboardSummary v w5;
          settled =
            (case a1 of Inl e \<Rightarrow> Inl e | Inr items \<Rightarrow>
            (case a2 of Inl e \<Rightarrow> Inl e | Inr users \<Rightarrow>
            (case a3 of Inl e \<Rightarrow> Inl e | Inr orders \<Rightarrow>
            (case a4 of Inl e \<Rightarrow> Inl e | Inr inventory \<Rightarrow>
            (case a5 of Inl e \<Rightarrow> Inl e | Inr schedules \<Rightarrow>
            (case a6 of Inl e \<Rightarrow> Inl e | Inr summary \<Rightarrow>
               Inr \<lparr>r_items = items, r_users = users, r_orders = orders,
                    r_inventory = inventory, r_schedules = schedules,
                    r_summary = summary\<rparr>))))))
      in (settled, w6))"

definition snapshot :: "six_reads \<Rightarrow> jsval \<Rightarrow> jsval" where
  "snapshot r loadTime =
     JObj [(''items'', r_items r),
           (''users'', JArr (map dashboard_user (r_users r))),
           (''orders'', r_orders r),
           (''inventory'', r_inventory r),
           (''schedules'', r_schedules r),
           (''summary'', r_summary r),
           (''totalLoadTime'', loadTime)]"

text \<open>The bearer variant: one function, one \<open>start\<close>.\<close>

definition fetchDashboardAll_bearer :: "intl \<Rightarrow> world \<Rightarrow> (error + jsval) \<times> world" where
  "fetchDashboardAll_bearer fmt w =
     (let (start, w0) = Date_now w
      in case api_get Bearer ''/api/dashboard/all'' None w0 of
           (Inr d, w1) \<Rightarrow>
             (let (t, w2) = Date_now w1
              in (Inr (JObj (obj_set ''totalLoadTime'' (elapsed t start) (spread d))), w2))
         | (Inl e, w1) \<Rightarrow>
             (case all_six Bearer fmt w1 of
                (Inl e', w2) \<Rightarrow> (Inl e', w2)
              | (Inr r, w2) \<Rightarrow>
                  (let (t, w3) = Date_now w2 in (Inr (snapshot r (elapsed t start)), w3))))"

text \<open>
  The session variant: the fallback is a function of its own with a \<open>startTime\<close> of
  its own. Both functions read the clock once more in their \<open>catch\<close> blocks, for the
  console.
\<close>

definition fetchDashboardAllFallback :: "intl \<Rightarrow> world \<Rightarrow> (error + jsval) \<times> world" where
  "fetchDashboardAllFallback fmt w =
     (let (startTime, w0) = Date_now w
      in case all_six Session fmt w0 of
           (Inr r, w1) \<Rightarrow>
             (let (t, w2) = Date_now w1;
                  loadTime = elapsed t startTime
              in (Inr (snapshot r loadTime), w2))
         | (Inl e, w1) \<Rightarrow>
             (let (t, w2) = Date_now w1 in (Inl e, w2)))"

definition fetchDashboardAll_session :: "intl \<Rightarrow> world \<Rightarrow> (error + jsval) \<times> world" where
  "fetchDashboardAll_session fmt w =
     (let (startTime, w0) = Date_now w
      in case api_get Session ''/api/dashboard/all'' None w0 of
           (Inr d, w1) \<Rightarrow>
             (let (t, w2) = Date_now w1;
                  loadTime = elapsed t startTime
              in (Inr (JObj (obj_set ''totalLoadTime'' loadTime (spread d))), w2))
         | (Inl e, w1) \<Rightarrow>
             (let (t, w2) = Date_now w1 in fetchDashboardAllFallback fmt w2))"

definition fetchDashboardAll :: "variant \<Rightarrow> intl \<Rightarrow> world \<Rightarrow> (error + jsval) \<times> world" where
  "fetchDashboardAll v fmt w =
     (case v of
        Bearer \<Rightarrow> fetchDashboardAll_bearer fmt w
      | Session \<Rightarrow> fetchDashboardAll_session fmt w)"

section \<open>Reshaping inventory balances and completed orders\<close>

text \<open>
  The two accessors below read their payload at its declared type
  (\<open>BackendInventoryResponse[]\<close>, and the order shape of \<open>InOutOrderResponse\<close>), so
  the model gives them the settled value of the raw read at that type: the exception
  of the read, or the payload. Identifiers are integers, printed in decimal. A string
  field that is absent and one that is empty are both falsy and both modelled as the
  empty string.
\<close>

record BackendInventoryResponse =
  b_itemId :: int
  b_itemName :: string
  b_locationCode :: string
  b_quantity :: number
  b_lastUpdated :: string

record InventoryItem =
  inv_id :: nat
  inv_name :: string
  inv_sku :: string
  inv_specification :: string
  inv_quantity :: number
  inv_inboundScheduled :: nat
  inv_outboundScheduled :: nat
  inv_location :: string
  inv_status :: string
  inv_lastUpdate :: string

text \<open>The three status labels, as UTF-8 bytes: danger, short, normal.\<close>

definition label_danger :: string where
  "label_danger = map char_of [0xEC, 0x9C, 0x84, 0xED, 0x97, 0x98 :: nat]"

definition label_short :: string where
  "label_short = map char_of [0xEB, 0xB6, 0x80, 0xEC, 0xA1, 0xB1 :: nat]"

definition label_normal :: string where
  "label_normal = map char_of [0xEC, 0xA0, 0x95, 0xEC, 0x83, 0x81 :: nat]"

definition inventory_status :: "number \<Rightarrow> string" where
  "inventory_status q =
     (if number_le q (Finite 0) then label_danger
      else if number_le q (Finite 10) then label_short
      else label_normal)"

definition to_inventory_item :: "intl \<Rightarrow> nat \<times> BackendInventoryResponse \<Rightarrow> InventoryItem" where
  "to_inventory_item fmt ib =
     (case ib of (index, backendItem) \<Rightarrow>
        \<lparr>inv_id = index + 1,
         inv_name = b_itemName backendItem,
         inv_sku = ''SKU-'' @ string_of_int (b_itemId backendItem),
         inv_specification = ''N/A'',
         inv_quantity = b_quantity backendItem,
         inv_inboundScheduled = 0,
         inv_outboundScheduled = 0,
         inv_location = b_locationCode backendItem,
         inv_status = inventory_status (b_quantity backendItem),
         inv_lastUpdate = toLocaleString fmt (JStr (b_lastUpdated backendItem))\<rparr>)"

text \<open>\<open>None\<close> is a payload that is \<open>null\<close> or \<open>undefined\<close>.\<close>

definition fetchInventoryData ::
  "intl \<Rightarrow> error + BackendInventoryResponse list option \<Rightarrow> error + InventoryItem list" where
  "fetchInventoryData fmt raw =
     (case raw of
        Inl e \<Rightarrow> Inl e
      | Inr backendData \<Rightarrow>
          (case backendData of
             None \<Rightarrow> Inr []
           | Some bs \<Rightarrow>
               if length bs = 0 then Inr []
               else Inr (map (to_inventory_item fmt) (enumerate 0 bs))))"

record InOutOrderItem =
  i_itemId :: int
  i_itemCode :: string
  i_itemName :: string
  i_specification :: string
  i_requestedQuantity :: number

record InOutOrder =
  o_orderId :: int
  o_type :: string
  o_status :: string
  o_companyName :: string
  o_companyCode :: string
  o_createdAt :: string
  o_updatedAt :: string
  o_items :: "InOutOrderItem list"

record InOutRecord =
  rec_id :: string
  rec_type :: string
  rec_productName :: string
  rec_sku :: string
  rec_individualCode :: string
  rec_specification :: string
  rec_quantity :: number
  rec_location :: string
  rec_company :: string
  rec_companyCode :: string
  rec_status :: string
  rec_destination :: string
  rec_date :: string
  rec_time :: string
  rec_notes :: string

definition label_done :: string where
  "label_done = map char_of [0xEC, 0x99, 0x84, 0xEB, 0xA3, 0x8C :: nat]"

definition label_in_progress :: string where
  "label_in_progress =
     map char_of [0xEC, 0xA7, 0x84, 0xED, 0x96, 0x89, 0x20, 0xEC, 0xA4, 0x91 :: nat]"

text \<open>\<open>a || b\<close> on strings and on numbers.\<close>

definition str_or :: "string \<Rightarrow> string \<Rightarrow> string" where
  "str_or a b = (if a \<noteq> [] then a else b)"

definition num_or :: "number \<Rightarrow> number \<Rightarrow> number" where
  "num_or a b = (if a \<noteq> NaN \<and> a \<noteq> Finite 0 then a else b)"

definition to_record :: "intl \<Rightarrow> InOutOrder \<Rightarrow> nat \<times> InOutOrderItem \<Rightarrow> InOutRecord" where
  "to_record fmt record ii =
     (case ii of (itemIndex, item) \<Rightarrow>
        let dateTime = str_or (o_createdAt record) (str_or (o_updatedAt record) (nowISOString fmt));
            segs = split_on CHR ''T'' dateTime;
            date = (case segs of [] \<Rightarrow> [] | d # _ \<Rightarrow> d);
            time = str_or (case segs of _ # tf # _ \<Rightarrow> substring0 8 tf | _ \<Rightarrow> []) ''00:00:00''
        in \<lparr>rec_id = string_of_int (o_orderId record) @ ''-'' @ string_of_nat itemIndex,
            rec_type = toLowerCase (str_or (o_type record) ''INBOUND''),
            rec_productName = str_or (i_itemName item) ''N/A'',
            rec_sku = str_or (i_itemCode item) ''N/A'',
            rec_individualCode =
              ''ORDER-'' @ string_of_int (o_orderId record) @ ''-'' @ string_of_int (i_itemId item),
            rec_specification = str_or (i_specification item) ''N/A'',
            rec_quantity = num_or (i_requestedQuantity item) (Finite 0),
            rec_location = ''A-01'',
            rec_company = str_or (o_companyName record) ''N/A'',
            rec_companyCode = str_or (o_companyCode record) ''N/A'',
            rec_status = (if o_status record = ''COMPLETED'' then label_done else label_in_progress),
            rec_destination = ''-'',
            rec_date = date,
            rec_time = time,
            rec_notes = ''-''\<rparr>)"

definition fetchInOutData :: "intl \<Rightarrow> error + InOutOrder list \<Rightarrow> error + InOutRecord list" where
  "fetchInOutData fmt raw =
     (case raw of
        Inl e \<Rightarrow> Inl e
      | Inr allData \<Rightarrow>
          (let completedData = filter (\<lambda>record. o_status record = ''COMPLETED'') allData
           in Inr (concat (map (\<lambda>record. map (to_record fmt record) (enumerate 0 (o_items record)))
                             completedData))))"

section \<open>Vocabulary for the properties\<close>

subsection \<open>One step of the network and of the clock\<close>

definition next_outcome :: "world \<Rightarrow> outcome" where
  "next_outcome w = (case script w of [] \<Rightarrow> NetworkError | out # _ \<Rightarrow> out)"

definition after_call :: "channel \<Rightarrow> config \<Rightarrow> world \<Rightarrow> world" where
  "after_call ch c w = w\<lparr>script := drop 1 (script w), sent := sent w @ [(ch, c)]\<rparr>"

definition tick :: "world \<Rightarrow> world" where
  "tick w = snd (Date_now w)"


text \<open>What the adapter makes of the outcome of a request.\<close>

definition settle :: "config \<Rightarrow> outcome \<Rightarrow> error + response" where
  "settle c out =
     (case out of
        NetworkError \<Rightarrow> Inl (AxiosError None Undefined c)
      | Response st b \<Rightarrow>
          if ok st then Inr \<lparr>resp_status = st, resp_data = axios_data b\<rparr>
          else Inl (AxiosError (Some st) (axios_data b) c))"


text \<open>The calls made so far, each reduced to channel, method, path and body.\<close>

definition sent_lines :: "world \<Rightarrow> (channel \<times> string option \<times> url \<times> jsval) list" where
  "sent_lines w = map (\<lambda>x. (fst x, meth (snd x), url (snd x), data (snd x))) (sent w)"

text \<open>A call that settled with an authorization rejection.\<close>

definition is403 :: "error + response \<Rightarrow> bool" where
  "is403 r = (case r of Inl (AxiosError st _ _) \<Rightarrow> st = Some 403 | _ \<Rightarrow> False)"

subsection \<open>Token acquisition\<close>

text \<open>What one candidate endpoint makes of the outcome of its call.\<close>

definition candidate_result :: "outcome \<Rightarrow> error + jsval option" where
  "candidate_result out =
     (case out of
        NetworkError \<Rightarrow> Inl TypeError
      | Response st b \<Rightarrow>
          if ok st then
            (case b of
               Unparsable _ \<Rightarrow> Inl SyntaxError
             | Parsed j \<Rightarrow>
                 if truthy (get_prop j ''token'') then Inr (Some (get_prop j ''token''))
                 else Inr None)
          else Inr None)"

definition primary :: "world \<Rightarrow> world" where
  "primary w = after_call Fetch (fetch_config ''/api/csrf'') w"

definition secondary :: "world \<Rightarrow> world" where
  "secondary w = after_call Fetch (fetch_config ''/csrf'') (primary w)"


subsection \<open>Security injection\<close>

definition with_csrf :: "jsval \<Rightarrow> config \<Rightarrow> config" where
  "with_csrf t c = c\<lparr>headers := obj_set ''X-CSRF-TOKEN'' t (headers c)\<rparr>"

definition with_bearer :: "world \<Rightarrow> config \<Rightarrow> config" where
  "with_bearer w cfg =
     (case (if hasWindow w then authToken w else None) of
        None \<Rightarrow> cfg
      | Some tk \<Rightarrow>
          if tk \<noteq> [] then
            cfg\<lparr>headers := obj_set ''Authorization'' (JStr (''Bearer '' @ tk)) (headers cfg)\<rparr>
          else cfg)"

text \<open>The configuration a call is sent with when the pipeline acquires nothing.\<close>

definition outgoing :: "variant \<Rightarrow> config \<Rightarrow> world \<Rightarrow> config" where
  "outgoing v cfg w =
     (case v of
        Bearer \<Rightarrow> cache_bust (now w) (with_bearer w cfg)
      | Session \<Rightarrow> with_csrf (CSRF_TOKEN w) (cache_bust (now w) cfg))"


subsection \<open>The verb fallback, as the specification describes it\<close>

definition record_order_id :: "string \<Rightarrow> number" where
  "record_order_id ident =
     Number_opt (if str_includes ident CHR ''-'' then first_segment ident else Some ident)"








subsection \<open>The dashboard snapshot\<close>

text \<open>\<open>Object.keys\<close>, the elements of an array, and the value a call settled with.\<close>

definition object_keys :: "jsval \<Rightarrow> string list" where
  "object_keys x = map fst (spread x)"

definition array_items :: "jsval \<Rightarrow> jsval list" where
  "array_items x = (case x of JArr xs \<Rightarrow> xs | _ \<Rightarrow> [])"

definition snapshot_of :: "(error + jsval) \<times> world \<Rightarrow> jsval" where
  "snapshot_of r = (case fst r of Inl _ \<Rightarrow> Undefined | Inr s \<Rightarrow> s)"

text \<open>The fields the interface \<open>UserResponse\<close> declares for a user of \<open>DashboardData\<close>.\<close>

definition UserResponse_fields :: "string list" where
  "UserResponse_fields =
     [''userId'', ''username'', ''email'', ''fullName'', ''role'', ''status'', ''lastLogin'',
      ''joinedAt'']"

section \<open>Readings of the specification and concrete inputs\<close>

subsection \<open>Completed order lines, as the specification describes them\<close>

definition is_completed :: "InOutOrder \<Rightarrow> bool" where
  "is_completed r = (o_status r = ''COMPLETED'')"

definition line_id :: "InOutOrder \<Rightarrow> nat \<Rightarrow> string" where
  "line_id r i = string_of_int (o_orderId r) @ ''-'' @ string_of_nat i"

definition line_code :: "InOutOrder \<Rightarrow> InOutOrderItem \<Rightarrow> string" where
  "line_code r it = ''ORDER-'' @ string_of_int (o_orderId r) @ ''-'' @ string_of_int (i_itemId it)"

text \<open>
  One triple (identifier, status label, individual code) per line item of each order
  whose status is \<open>COMPLETED\<close>, in the order of the payload.
\<close>

definition completed_lines :: "InOutOrder list \<Rightarrow> (string \<times> string \<times> string) list" where
  "completed_lines orders =
     concat (map (\<lambda>r. map (\<lambda>i. (line_id r i, label_done, line_code r (o_items r ! i)))
                         [0..<length (o_items r)])
                 (filter is_completed orders))"

definition line_view :: "InOutRecord \<Rightarrow> string \<times> string \<times> string" where
  "line_view x = (rec_id x, rec_status x, rec_individualCode x)"

subsection \<open>Inputs\<close>

definition fmt_ko :: intl where
  "fmt_ko =
     \<lparr>toLocaleString = (\<lambda>_. ''2025. 3. 4. 10:11:12''),
      toLocaleStringMinutes = (\<lambda>_. ''2025. 03. 04. 10:11''),
      toLocaleDateString = (\<lambda>_. ''2025. 3. 4.''),
      todayLocaleDateString = ''2025. 3. 4.'',
      nowISOString = ''2025-03-04T10:11:12.345Z''\<rparr>"

definition balance :: "rat \<Rightarrow> BackendInventoryResponse" where
  "balance q =
     \<lparr>b_itemId = 3, b_itemName = ''bolt'', b_locationCode = ''A-01'',
      b_quantity = Finite q, b_lastUpdated = ''2025-03-04T10:11:12''\<rparr>"

definition three_balances :: "BackendInventoryResponse list" where
  "three_balances = [balance 0, balance 10, balance 11]"

definition three_items :: "InventoryItem list" where
  "three_items = map (to_inventory_item fmt_ko) (enumerate 0 three_balances)"

definition line_item :: "int \<Rightarrow> InOutOrderItem" where
  "line_item n =
     \<lparr>i_itemId = n, i_itemCode = ''BLT'', i_itemName = ''bolt'', i_specification = ''M8'',
      i_requestedQuantity = Finite 4\<rparr>"

definition order_of :: "int \<Rightarrow> string \<Rightarrow> InOutOrderItem list \<Rightarrow> InOutOrder" where
  "order_of n st its =
     \<lparr>o_orderId = n, o_type = ''OUTBOUND'', o_status = st, o_companyName = ''Acme'',
      o_companyCode = ''AC'', o_createdAt = ''2025-03-04T10:11:12.345'', o_updatedAt = [],
      o_items = its\<rparr>"

definition two_orders :: "InOutOrder list" where
  "two_orders =
     [order_of 482 ''COMPLETED'' [line_item 9, line_item 10], order_of 5 ''PENDING'' [line_item 9]]"

definition two_records :: "InOutRecord list" where
  "two_records = (case fetchInOutData fmt_ko (Inr two_orders) of Inl _ \<Rightarrow> [] | Inr recs \<Rightarrow> recs)"

definition idle :: world where
  "idle =
     \<lparr>CSRF_TOKEN = Null, authToken = None, hasWindow = True, now = 0, later = [],
      script = [], sent = []\<rparr>"

text \<open>A signed-in process and a backend that answers the next request with 200.\<close>

definition one_answer :: world where
  "one_answer =
     idle\<lparr>CSRF_TOKEN := JStr ''t0'', authToken := Some ''b0'',
          script := [Response 200 (Parsed (JStr ''done''))]\<rparr>"

definition backend_user :: jsval where
  "backend_user =
     JObj [(''userId'', JNum (Finite 7)), (''username'', JStr ''kim''),
           (''email'', JStr ''kim@example.com''), (''fullName'', JStr ''Kim''),
           (''role'', JStr ''ADMIN''), (''status'', JStr ''ACTIVE''),
           (''lastLogin'', JStr ''2025-03-01T09:00:00''),
           (''joinedAt'', JStr ''2024-01-01T00:00:00'')]"

text \<open>
  The consolidated read is answered 500 after five seconds; the six reads of the
  fallback are answered 200 within 300 ms.
\<close>

definition slow_consolidated :: world where
  "slow_consolidated =
     idle\<lparr>later := [0, 5000, 5000, 5000, 5000, 5000, 5000, 5000, 5000, 5300],
          script :=
            [Response 500 (Parsed Null),
             Response 200 (Parsed (JArr [])),
             Response 200 (Parsed (JArr [backend_user])),
             Response 200 (Parsed (JArr [])),
             Response 200 (Parsed (JArr [])),
             Response 200 (Parsed (JArr [])),
             Response 200 (Parsed (JObj []))]\<rparr>"

definition put_status :: config where
  "put_status =
     request_config ''put'' [Lit ''/api/inout/orders/'', Val (Finite 482), Lit ''/status''] None
       (JObj [(''status'', JStr ''COMPLETED'')])"


text \<open>A cached token the backend no longer accepts, and no token endpoint in reach.\<close>

definition rejected_offline :: world where
  "rejected_offline =
     idle\<lparr>CSRF_TOKEN := JStr ''t0'', script := [Response 403 (Parsed Null)]\<rparr>"

text \<open>The same, with a token endpoint that answers, and a backend that rejects again.\<close>

definition rejected_twice :: world where
  "rejected_twice =
     idle\<lparr>CSRF_TOKEN := JStr ''t0'',
          script := [Response 403 (Parsed Null),
                     Response 200 (Parsed (JObj [(''token'', JStr ''t1'')])),
                     Response 403 (Parsed Null)]\<rparr>"




text \<open>The first attempt of \<open>put_status\<close> in \<open>rejected_twice\<close>, and the state after it.\<close>

definition first_attempt :: config where
  "first_attempt = with_csrf (JStr ''t0'') (cache_bust 0 put_status)"

definition after_first :: world where
  "after_first = after_call Axios first_attempt (tick rejected_twice)"

section \<open>Properties\<close>

subsection \<open>Auxiliary facts\<close>

lemma labels_distinct:
  "label_danger \<noteq> label_short" "label_danger \<noteq> label_normal" "label_short \<noteq> label_normal"
  by (simp_all add: label_danger_def label_short_def label_normal_def)

lemma inventory_status_Finite:
  "inventory_status (Finite q) =
     (if q \<le> 0 then label_danger else if q \<le> 10 then label_short else label_normal)"
  by (simp add: inventory_status_def)

lemma to_record_view:
  "is_completed r \<Longrightarrow>
   line_view (to_record fmt r (i, it)) = (line_id r i, label_done, line_code r it)"
  by (simp add: to_record_def line_view_def line_id_def line_code_def is_completed_def Let_def)

lemma order_lines_view:
  assumes "is_completed r"
  shows "map (line_view \<circ> to_record fmt r) (enumerate 0 (o_items r)) =
         map (\<lambda>i. (line_id r i, label_done, line_code r (o_items r ! i))) [0..<length (o_items r)]"
  using assms by (intro nth_equalityI) (simp_all add: nth_enumerate_eq to_record_view)

lemma concat_lines_view:
  assumes "\<forall>r \<in> set rs. is_completed r"
  shows "map line_view (concat (map (\<lambda>r. map (to_record fmt r) (enumerate 0 (o_items r))) rs)) =
         concat (map (\<lambda>r. map (\<lambda>i. (line_id r i, label_done, line_code r (o_items r ! i)))
                         [0..<length (o_items r)]) rs)"
  using assms by (induction rs) (simp_all add: order_lines_view)

lemma list_of_three: "length xs = 3 \<Longrightarrow> xs = [xs ! 0, xs ! 1, xs ! 2]"
  by (cases xs; cases "tl xs"; cases "tl (tl xs)") auto

lemma map_of_obj_set: "map_of (obj_set k v kvs) k' = (if k' = k then Some v else map_of kvs k')"
  by (induction kvs) auto

lemma obj_set_idem: "obj_set k v (obj_set k v kvs) = obj_set k v kvs"
  by (induction kvs) auto

lemma isSafeMethod_put: "isSafeMethod (Some ''put'') = False"
  by code_simp



subsubsection \<open>Clock and network\<close>

lemma network_eq: "network ch c w = (next_outcome w, after_call ch c w)"
  by (cases w) (simp add: network_def next_outcome_def after_call_def split: list.splits)

lemma Date_now_eq: "Date_now w = (now w, tick w)"
  by (simp add: tick_def Date_now_def)

lemma tick_fields [simp]:
  "sent (tick w) = sent w" "script (tick w) = script w" "CSRF_TOKEN (tick w) = CSRF_TOKEN w"
  "authToken (tick w) = authToken w" "hasWindow (tick w) = hasWindow w"
  by (simp_all add: tick_def Date_now_def split: list.splits)

lemma after_call_fields [simp]:
  "sent (after_call ch c w) = sent w @ [(ch, c)]" "script (after_call ch c w) = drop 1 (script w)"
  "CSRF_TOKEN (after_call ch c w) = CSRF_TOKEN w" "now (after_call ch c w) = now w"
  "later (after_call ch c w) = later w"
  "authToken (after_call ch c w) = authToken w" "hasWindow (after_call ch c w) = hasWindow w"
  by (simp_all add: after_call_def)


lemma next_outcome_tick [simp]: "next_outcome (tick w) = next_outcome w"
  by (simp add: next_outcome_def)


lemma dispatchRequest_eq:
  "dispatchRequest c w = (settle c (next_outcome w), after_call Axios c w)"
  by (simp add: dispatchRequest_def network_eq settle_def split: outcome.splits)

lemma settle_error: "settle c out = Inl e \<Longrightarrow> \<exists>st d. e = AxiosError st d c"
  by (auto simp: settle_def split: outcome.splits if_splits)





lemma sent_lines_tick [simp]: "sent_lines (tick w) = sent_lines w"
  by (simp add: sent_lines_def)

subsubsection \<open>Token acquisition\<close>

lemma csrf_candidate_eq:
  "csrf_candidate path w =
     (candidate_result (next_outcome w), after_call Fetch (fetch_config path) w)"
  by (simp add: csrf_candidate_def fetch_def network_eq candidate_result_def json_def
      split: outcome.splits body.splits)

lemma candidate_result_truthy: "candidate_result out = Inr (Some t) \<Longrightarrow> truthy t"
  by (auto simp: candidate_result_def split: outcome.splits body.splits if_splits)

lemma fetchCsrfToken_eq:
  "fetchCsrfToken w =
     (case candidate_result (next_outcome w) of
        Inr (Some t) \<Rightarrow> (Inr t, primary w)
      | _ \<Rightarrow>
          (case candidate_result (next_outcome (primary w)) of
             Inr (Some t) \<Rightarrow> (Inr t, secondary w)
           | Inr None \<Rightarrow> (Inl (Error ''CSRF token endpoint not reachable''), secondary w)
           | Inl e \<Rightarrow> (Inl e, secondary w)))"
  by (simp add: fetchCsrfToken_def csrf_candidate_eq primary_def secondary_def
      split: sum.splits option.splits)

lemma fetchCsrfToken_truthy: "fetchCsrfToken w = (Inr t, w') \<Longrightarrow> truthy t"
  by (auto simp: fetchCsrfToken_eq dest: candidate_result_truthy split: sum.splits option.splits)

lemma fetchCsrfToken_world:
  "snd (fetchCsrfToken w) = primary w \<or> snd (fetchCsrfToken w) = secondary w"
  by (auto simp: fetchCsrfToken_eq split: sum.splits option.splits)


lemma fetchCsrfToken_token: "CSRF_TOKEN (snd (fetchCsrfToken w)) = CSRF_TOKEN w"
  using fetchCsrfToken_world [of w] by (auto simp: primary_def secondary_def)

subsubsection \<open>The request interceptors\<close>

lemma cache_bust_fields [simp]:
  "meth (cache_bust t c) = meth c" "url (cache_bust t c) = url c"
  "headers (cache_bust t c) = headers c" "data (cache_bust t c) = data c"
  "retriedOnce (cache_bust t c) = retriedOnce c"
  "query_params (cache_bust t c) = obj_set ''_t'' (stamp t) (query_params c)"
  by (simp_all add: cache_bust_def query_params_def)

lemma with_bearer_fields [simp]:
  "meth (with_bearer w c) = meth c" "url (with_bearer w c) = url c"
  "data (with_bearer w c) = data c" "query_params (with_bearer w c) = query_params c"
  "retriedOnce (with_bearer w c) = retriedOnce c"
  by (simp_all add: with_bearer_def query_params_def split: option.splits)

lemma with_csrf_fields [simp]:
  "meth (with_csrf t c) = meth c" "url (with_csrf t c) = url c"
  "data (with_csrf t c) = data c" "query_params (with_csrf t c) = query_params c"
  "retriedOnce (with_csrf t c) = retriedOnce c"
  "headers (with_csrf t c) = obj_set ''X-CSRF-TOKEN'' t (headers c)"
  by (simp_all add: with_csrf_def query_params_def)

lemma outgoing_fields [simp]:
  "meth (outgoing v c w) = meth c" "url (outgoing v c w) = url c" "data (outgoing v c w) = data c"
  "retriedOnce (outgoing v c w) = retriedOnce c"
  by (cases v; simp add: outgoing_def)+




lemma request_interceptor_session_safe:
  "isSafeMethod (meth cfg) \<Longrightarrow>
   request_interceptor_session cfg w = (Inr (cache_bust (now w) cfg), tick w)"
  by (simp add: request_interceptor_session_def Date_now_eq)

lemma request_interceptor_session_cached:
  "\<not> isSafeMethod (meth cfg) \<Longrightarrow> truthy (CSRF_TOKEN w) \<Longrightarrow>
   request_interceptor_session cfg w =
     (Inr (with_csrf (CSRF_TOKEN w) (cache_bust (now w) cfg)), tick w)"
  by (simp add: request_interceptor_session_def Date_now_eq with_csrf_def)

lemma request_interceptor_session_acquire:
  "\<not> isSafeMethod (meth cfg) \<Longrightarrow> \<not> truthy (CSRF_TOKEN w) \<Longrightarrow>
   request_interceptor_session cfg w =
     (case fetchCsrfToken (tick w) of
        (Inl e, w2) \<Rightarrow> (Inl e, w2)
      | (Inr t, w2) \<Rightarrow> (Inr (with_csrf t (cache_bust (now w) cfg)), w2\<lparr>CSRF_TOKEN := t\<rparr>))"
  by (simp add: request_interceptor_session_def Date_now_eq with_csrf_def
      split: prod.splits sum.splits)

lemma request_interceptor_session_shape:
  assumes "request_interceptor_session cfg w = (Inr c, w')"
  shows "c = cache_bust (now w) cfg \<or> (\<exists>t. c = with_csrf t (cache_bust (now w) cfg))"
proof (cases "isSafeMethod (meth cfg)")
  case True
  with assms show ?thesis by (simp add: request_interceptor_session_safe)
next
  case False
  show ?thesis
  proof (cases "truthy (CSRF_TOKEN w)")
    case True
    with False assms show ?thesis by (auto simp: request_interceptor_session_cached)
  next
    case no: False
    with False assms show ?thesis
      by (auto simp: request_interceptor_session_acquire split: prod.splits sum.splits)
  qed
qed

lemma request_interceptor_session_fields:
  assumes "request_interceptor_session cfg w = (Inr c, w')"
  shows "meth c = meth cfg" "url c = url cfg" "data c = data cfg"
    "retriedOnce c = retriedOnce cfg"
  using request_interceptor_session_shape [OF assms] by auto



subsubsection \<open>The response interceptor\<close>


lemma response_rejected_not_eligible:
  "st \<noteq> Some 403 \<or> retriedOnce original \<or> isSafeMethod (meth original) \<Longrightarrow>
   response_rejected (AxiosError st d original) w = (Inl (AxiosError st d original), w)"
  by (auto simp: response_rejected.simps)

lemma apiClient_session_first_rejected:
  assumes "request_interceptor_session cfg w = (Inr c1, w1)"
    and "settle c1 (next_outcome w1) = Inl e"
  shows "apiClient_session cfg w = response_rejected e (after_call Axios c1 w1)"
  using assms by (simp add: apiClient_session.simps dispatchRequest_eq)

lemma apiClient_session_first_accepted:
  assumes "request_interceptor_session cfg w = (Inr c1, w1)"
    and "settle c1 (next_outcome w1) = Inr r"
  shows "apiClient_session cfg w = (Inr r, after_call Axios c1 w1)"
  using assms by (simp add: apiClient_session.simps dispatchRequest_eq)

text \<open>A request that was retried before goes out once and is not retried again.\<close>

lemma apiClient_session_retried:
  assumes "retriedOnce cfg" "\<not> isSafeMethod (meth cfg)" "truthy (CSRF_TOKEN w)"
  shows "apiClient_session cfg w =
           dispatchRequest (with_csrf (CSRF_TOKEN w) (cache_bust (now w) cfg)) (tick w)"
proof -
  let ?c = "with_csrf (CSRF_TOKEN w) (cache_bust (now w) cfg)"
  have first: "request_interceptor_session cfg w = (Inr ?c, tick w)"
    using assms by (simp add: request_interceptor_session_cached)
  have r: "retriedOnce ?c" using assms by simp
  show ?thesis
  proof (cases "settle ?c (next_outcome (tick w))")
    case (Inl e)
    then obtain st d where e: "e = AxiosError st d ?c" by (auto dest: settle_error)
    have "response_rejected e (after_call Axios ?c (tick w)) = (Inl e, after_call Axios ?c (tick w))"
      unfolding e using r by (intro response_rejected_not_eligible) simp
    with apiClient_session_first_rejected [OF first Inl] Inl show ?thesis
      by (simp add: dispatchRequest_eq)
  next
    case (Inr resp)
    with apiClient_session_first_accepted [OF first Inr] show ?thesis
      by (simp add: dispatchRequest_eq)
  qed
qed

lemma response_rejected_retry:
  assumes "\<not> retriedOnce original" "\<not> isSafeMethod (meth original)"
    and "fetchCsrfToken (w\<lparr>CSRF_TOKEN := Null\<rparr>) = (Inr t, w2)"
  shows "response_rejected (AxiosError (Some 403) d original) w =
           dispatchRequest
             (with_csrf t (cache_bust (now w2) (original\<lparr>retriedOnce := True\<rparr>)))
             (tick (w2\<lparr>CSRF_TOKEN := t\<rparr>))"
proof -
  have t: "truthy t" using assms(3) by (rule fetchCsrfToken_truthy)
  let ?o = "(original\<lparr>retriedOnce := True\<rparr>)\<lparr>headers :=
              obj_set ''X-CSRF-TOKEN'' t (headers (original\<lparr>retriedOnce := True\<rparr>))\<rparr>"
  have "response_rejected (AxiosError (Some 403) d original) w =
          apiClient_session ?o (w2\<lparr>CSRF_TOKEN := t\<rparr>)"
    using assms by (simp add: response_rejected.simps Let_def)
  also have "\<dots> =
      dispatchRequest (with_csrf t (cache_bust (now w2) ?o)) (tick (w2\<lparr>CSRF_TOKEN := t\<rparr>))"
    using apiClient_session_retried [of ?o "w2\<lparr>CSRF_TOKEN := t\<rparr>"] assms t by simp
  also have "with_csrf t (cache_bust (now w2) ?o) =
             with_csrf t (cache_bust (now w2) (original\<lparr>retriedOnce := True\<rparr>))"
    by (simp add: with_csrf_def cache_bust_def obj_set_idem query_params_def)
  finally show ?thesis .
qed

lemma response_rejected_no_token:
  assumes "\<not> retriedOnce original" "\<not> isSafeMethod (meth original)"
    and "fetchCsrfToken (w\<lparr>CSRF_TOKEN := Null\<rparr>) = (Inl e, w2)"
  shows "response_rejected (AxiosError (Some 403) d original) w =
           (Inl (AxiosError (Some 403) d (original\<lparr>retriedOnce := True\<rparr>)), w2)"
  using assms by (simp add: response_rejected.simps Let_def)



subsubsection \<open>A call in which the pipeline makes no call of its own\<close>



subsubsection \<open>The verb fallback\<close>



subsubsection \<open>Composite identifiers\<close>

lemma leading_segment_482: "Number_opt (first_segment ''482-3'') = Finite 482"
  by code_simp

lemma leading_segment_abc: "Number_opt (first_segment ''abc-3'') = NaN"
  by code_simp

lemma leading_segment_empty: "Number_opt (first_segment []) = Finite 0"
  by code_simp

lemma invalid_identifier_fails_fast:
  "isNaN (Number_opt (first_segment s)) \<Longrightarrow>
     updateOrderStatus v s st w = (Inl (Error (invalid_status_id v)), w) \<and>
     cancelInOutOrder v (IdString s) w = (Inl (Error (invalid_cancel_id v)), w)"
  "isNaN (record_order_id s) \<Longrightarrow>
     updateInOutRecord v s d w = (Inl (Error (invalid_record_id v)), w)"
  by (simp_all add: updateOrderStatus_def cancelInOutOrder_def updateInOutRecord_def
      record_order_id_def Let_def)

lemma empty_status_bearer:
  "sent_lines (snd (updateOrderStatus Bearer [] ''completed'' one_answer)) =
     [(Axios, Some ''put'', [Lit ''/api/inout/orders/'', Val (Finite 0), Lit ''/status''],
       JObj [(''status'', JStr ''COMPLETED'')])]"
  by code_simp

lemma empty_status_session:
  "sent_lines (snd (updateOrderStatus Session [] ''completed'' one_answer)) =
     [(Axios, Some ''put'', [Lit ''/api/inout/orders/'', Val (Finite 0), Lit ''/status''],
       JObj [(''status'', JStr ''COMPLETED'')])]"
  by code_simp

lemma empty_cancel_bearer:
  "sent_lines (snd (cancelInOutOrder Bearer (IdString []) one_answer)) =
     [(Axios, Some ''put'', [Lit ''/api/inout/orders/'', Val (Finite 0), Lit ''/cancel''],
       Undefined)]"
  by code_simp

lemma empty_cancel_session:
  "sent_lines (snd (cancelInOutOrder Session (IdString []) one_answer)) =
     [(Axios, Some ''put'', [Lit ''/api/inout/orders/'', Val (Finite 0), Lit ''/cancel''],
       Undefined)]"
  by code_simp

lemma empty_record_bearer:
  "sent_lines (snd (updateInOutRecord Bearer [] Null one_answer)) =
     [(Axios, Some ''put'', [Lit ''/api/inout/orders/'', Val (Finite 0), Lit ''/status''], Null)]"
  by code_simp

lemma empty_record_session:
  "sent_lines (snd (updateInOutRecord Session [] Null one_answer)) =
     [(Axios, Some ''put'', [Lit ''/api/inout/orders/'', Val (Finite 0), Lit ''/status''], Null)]"
  by code_simp

lemma empty_results:
  "fst (updateOrderStatus Bearer [] ''completed'' one_answer) = Inr (JStr ''done'')"
  "fst (updateOrderStatus Session [] ''completed'' one_answer) = Inr (JStr ''done'')"
  "fst (cancelInOutOrder Bearer (IdString []) one_answer) = Inr (JStr ''done'')"
  "fst (cancelInOutOrder Session (IdString []) one_answer) = Inr (JStr ''done'')"
  "fst (updateInOutRecord Bearer [] Null one_answer) = Inr (JStr ''done'')"
  "fst (updateInOutRecord Session [] Null one_answer) = Inr (JStr ''done'')"
  by code_simp+

subsubsection \<open>The dashboard on concrete runs\<close>

lemma session_load_time:
  "get_prop (snapshot_of (fetchDashboardAll Session fmt_ko slow_consolidated)) ''totalLoadTime'' =
     stamp 300"
  by code_simp

lemma session_clock_at_end: "now (snd (fetchDashboardAll Session fmt_ko slow_consolidated)) = 5300"
  by code_simp

lemma bearer_load_time_from_start:
  assumes "api_get Bearer ''/api/dashboard/all'' None (tick w) = (Inl e, w1)"
    and "all_six Bearer fmt w1 = (Inr r, w2)"
  shows "fetchDashboardAll Bearer fmt w = (Inr (snapshot r (elapsed (now w2) (now w))), tick w2)"
  using assms by (simp add: fetchDashboardAll_def fetchDashboardAll_bearer_def Date_now_eq)

lemma fallback_all_or_nothing:
  assumes "api_get v ''/api/dashboard/all'' None (tick w) = (Inl e, w1)"
    and "fst (all_six v fmt (if v = Session then tick (tick w1) else w1)) = Inl e'"
  shows "fst (fetchDashboardAll v fmt w) = Inl e'"
  using assms
  by (cases v)
     (auto simp: fetchDashboardAll_def fetchDashboardAll_bearer_def fetchDashboardAll_session_def
        fetchDashboardAllFallback_def Date_now_eq split: prod.splits sum.splits)

lemma dashboard_user_keys:
  "object_keys (dashboard_user u) =
     [''userId'', ''username'', ''email'', ''fullName'', ''role'', ''status'']"
  by (simp add: object_keys_def dashboard_user_def spread_def)

lemma fallback_users_session:
  "map object_keys
     (array_items (get_prop (snapshot_of (fetchDashboardAll Session fmt_ko slow_consolidated)) ''users'')) =
   [[''userId'', ''username'', ''email'', ''fullName'', ''role'', ''status'']]"
  by code_simp

lemma fallback_users_bearer:
  "map object_keys
     (array_items (get_prop (snapshot_of (fetchDashboardAll Bearer fmt_ko slow_consolidated)) ''users'')) =
   [[''userId'', ''username'', ''email'', ''fullName'', ''role'', ''status'']]"
  by code_simp

lemma backend_user_keys: "object_keys backend_user = UserResponse_fields"
  by code_simp

subsubsection \<open>Token acquisition and recovery on concrete runs\<close>

lemma offline_acquisition: "fst (fetchCsrfToken idle) = Inl TypeError"
  by code_simp

lemma offline_acquisition_calls:
  "sent_lines (snd (fetchCsrfToken idle)) =
     [(Fetch, None, [Lit ''/api/csrf''], Undefined), (Fetch, None, [Lit ''/csrf''], Undefined)]"
  by code_simp

lemma rejected_offline_request:
  "sent_lines (snd (apiClient_session put_status rejected_offline)) =
     [(Axios, Some ''put'', [Lit ''/api/inout/orders/'', Val (Finite 482), Lit ''/status''],
       JObj [(''status'', JStr ''COMPLETED'')]),
      (Fetch, None, [Lit ''/api/csrf''], Undefined),
      (Fetch, None, [Lit ''/csrf''], Undefined)]"
  by code_simp

lemma rejected_offline_failure:
  "is403 (fst (apiClient_session put_status rejected_offline))"
  by code_simp

lemma rejected_twice_token:
  "fst (fetchCsrfToken (after_first\<lparr>CSRF_TOKEN := Null\<rparr>)) = Inr (JStr ''t1'')"
  by code_simp

lemma rejected_twice_second:
  "next_outcome (snd (fetchCsrfToken (after_first\<lparr>CSRF_TOKEN := Null\<rparr>))) =
     Response 403 (Parsed Null)"
  by code_simp

lemma rejected_twice_requests:
  "sent_lines (snd (apiClient_session put_status rejected_twice)) =
     [(Axios, Some ''put'', [Lit ''/api/inout/orders/'', Val (Finite 482), Lit ''/status''],
       JObj [(''status'', JStr ''COMPLETED'')]),
      (Fetch, None, [Lit ''/api/csrf''], Undefined),
      (Axios, Some ''put'', [Lit ''/api/inout/orders/'', Val (Finite 482), Lit ''/status''],
       JObj [(''status'', JStr ''COMPLETED'')])]"
  by code_simp



subsubsection \<open>The verb fallback on concrete runs\<close>





subsubsection \<open>The request interceptors on concrete runs\<close>



subsection \<open>Claims\<close>

text \<open>
  C1 (the code departs from the claim). The claim has the empty identifier rejected
  before any network call. \<open>Number('')\<close> is \<open>0\<close>, not \<open>NaN\<close>, and the three
  operations test \<open>isNaN\<close> only: with the empty identifier each of them, in both
  variants, sends its request for order \<open>0\<close> and returns the answer of the backend.
  (Identifiers whose leading segment is not numeric are rejected without a call:
  \<open>invalid_identifier_fails_fast\<close>; \<open>482-3\<close> gives 482: \<open>leading_segment_482\<close>.)
\<close>

theorem empty_identifier_reaches_backend:
  "fst (updateOrderStatus Bearer [] ''completed'' one_answer) = Inr (JStr ''done'') \<and>
   fst (updateOrderStatus Session [] ''completed'' one_answer) = Inr (JStr ''done'') \<and>
   sent_lines (snd (updateOrderStatus Bearer [] ''completed'' one_answer)) =
     [(Axios, Some ''put'', [Lit ''/api/inout/orders/'', Val (Finite 0), Lit ''/status''],
       JObj [(''status'', JStr ''COMPLETED'')])] \<and>
   sent_lines (snd (updateOrderStatus Session [] ''completed'' one_answer)) =
     [(Axios, Some ''put'', [Lit ''/api/inout/orders/'', Val (Finite 0), Lit ''/status''],
       JObj [(''status'', JStr ''COMPLETED'')])] \<and>
   fst (cancelInOutOrder Bearer (IdString []) one_answer) = Inr (JStr ''done'') \<and>
   fst (cancelInOutOrder Session (IdString []) one_answer) = Inr (JStr ''done'') \<and>
   sent_lines (snd (cancelInOutOrder Bearer (IdString []) one_answer)) =
     [(Axios, Some ''put'', [Lit ''/api/inout/orders/'', Val (Finite 0), Lit ''/cancel''],
       Undefined)] \<and>
   sent_lines (snd (cancelInOutOrder Session (IdString []) one_answer)) =
     [(Axios, Some ''put'', [Lit ''/api/inout/orders/'', Val (Finite 0), Lit ''/cancel''],
       Undefined)] \<and>
   fst (updateInOutRecord Bearer [] Null one_answer) = Inr (JStr ''done'') \<and>
   fst (updateInOutRecord Session [] Null one_answer) = Inr (JStr ''done'') \<and>
   sent_lines (snd (updateInOutRecord Bearer [] Null one_answer)) =
     [(Axios, Some ''put'', [Lit ''/api/inout/orders/'', Val (Finite 0), Lit ''/status''], Null)] \<and>
   sent_lines (snd (updateInOutRecord Session [] Null one_answer)) =
     [(Axios, Some ''put'', [Lit ''/api/inout/orders/'', Val (Finite 0), Lit ''/status''], Null)]"
  using empty_results empty_status_bearer empty_status_session empty_cancel_bearer
    empty_cancel_session empty_record_bearer empty_record_session
  by (intro conjI) assumption+

text \<open>
  The claim of C2 as it is written fails when no fresh token can be had: the request
  below is state-mutating and is answered 403 on its first attempt, both token
  endpoints are out of reach, and the request is not sent a second time.
\<close>

theorem recovery_counterexample:
  "\<not> isSafeMethod (meth put_status) \<and>
   next_outcome rejected_offline = Response 403 (Parsed Null) \<and>
   sent_lines (snd (apiClient_session put_status rejected_offline)) =
     [(Axios, Some ''put'', [Lit ''/api/inout/orders/'', Val (Finite 482), Lit ''/status''],
       JObj [(''status'', JStr ''COMPLETED'')]),
      (Fetch, None, [Lit ''/api/csrf''], Undefined),
      (Fetch, None, [Lit ''/csrf''], Undefined)] \<and>
   is403 (fst (apiClient_session put_status rejected_offline))"
  using rejected_offline_request rejected_offline_failure
  by (simp add: put_status_def request_config_def isSafeMethod_put next_outcome_def
      rejected_offline_def idle_def)

text \<open>
  C2, amended. Take a request of the session variant whose first attempt was sent and
  rejected. If the rejection is not a 403, or the request had been retried before, or
  its verb is read-only, the rejection is the result and nothing more is sent. Else the
  cached token is discarded and a token is acquired; if that fails, the 403 is the
  result, nothing more is sent and no token is cached; if it succeeds with \<open>t\<close>, the
  request is sent exactly once more, marked as retried and carrying \<open>t\<close>, and the
  outcome of that one request, a second rejection included, is the result.
\<close>

theorem recovery_retries_once:
  assumes first: "request_interceptor_session cfg w = (Inr c1, w1)"
    and rejected: "settle c1 (next_outcome w1) = Inl (AxiosError st d c1)"
  shows "(st \<noteq> Some 403 \<or> retriedOnce cfg \<or> isSafeMethod (meth cfg) \<longrightarrow>
            apiClient_session cfg w = (Inl (AxiosError st d c1), after_call Axios c1 w1)) \<and>
         (st = Some 403 \<and> \<not> retriedOnce cfg \<and> \<not> isSafeMethod (meth cfg) \<longrightarrow>
            (\<forall>e w3. fetchCsrfToken ((after_call Axios c1 w1)\<lparr>CSRF_TOKEN := Null\<rparr>) = (Inl e, w3) \<longrightarrow>
               apiClient_session cfg w =
                 (Inl (AxiosError st d (c1\<lparr>retriedOnce := True\<rparr>)), w3) \<and>
               CSRF_TOKEN w3 = Null) \<and>
            (\<forall>t w3. fetchCsrfToken ((after_call Axios c1 w1)\<lparr>CSRF_TOKEN := Null\<rparr>) = (Inr t, w3) \<longrightarrow>
               (\<exists>c2. apiClient_session cfg w =
                        (settle c2 (next_outcome w3),
                         after_call Axios c2 (tick (w3\<lparr>CSRF_TOKEN := t\<rparr>))) \<and>
                     map_of (headers c2) ''X-CSRF-TOKEN'' = Some t \<and> truthy t \<and>
                     meth c2 = meth cfg \<and> url c2 = url cfg \<and> data c2 = data cfg \<and>
                     retriedOnce c2)))"
proof -
  let ?w2 = "after_call Axios c1 w1"
  note f = request_interceptor_session_fields [OF first]
  have run: "apiClient_session cfg w = response_rejected (AxiosError st d c1) ?w2"
    using first rejected by (rule apiClient_session_first_rejected)
  have a: "apiClient_session cfg w = (Inl (AxiosError st d c1), ?w2)"
    if "st \<noteq> Some 403 \<or> retriedOnce cfg \<or> isSafeMethod (meth cfg)"
    unfolding run using that f by (intro response_rejected_not_eligible) simp
  have b: "apiClient_session cfg w = (Inl (AxiosError st d (c1\<lparr>retriedOnce := True\<rparr>)), w3) \<and>
           CSRF_TOKEN w3 = Null"
    if "st = Some 403 \<and> \<not> retriedOnce cfg \<and> \<not> isSafeMethod (meth cfg)"
      and "fetchCsrfToken (?w2\<lparr>CSRF_TOKEN := Null\<rparr>) = (Inl e, w3)" for e w3
  proof -
    have "CSRF_TOKEN w3 = Null"
      using fetchCsrfToken_token [of "?w2\<lparr>CSRF_TOKEN := Null\<rparr>"] that(2) by simp
    moreover have "apiClient_session cfg w =
                     (Inl (AxiosError st d (c1\<lparr>retriedOnce := True\<rparr>)), w3)"
      unfolding run using that f response_rejected_no_token [of c1 ?w2 e w3 d] by simp
    ultimately show ?thesis by simp
  qed
  have c: "\<exists>c2. apiClient_session cfg w =
                  (settle c2 (next_outcome w3),
                   after_call Axios c2 (tick (w3\<lparr>CSRF_TOKEN := t\<rparr>))) \<and>
                map_of (headers c2) ''X-CSRF-TOKEN'' = Some t \<and> truthy t \<and>
                meth c2 = meth cfg \<and> url c2 = url cfg \<and> data c2 = data cfg \<and> retriedOnce c2"
    if "st = Some 403 \<and> \<not> retriedOnce cfg \<and> \<not> isSafeMethod (meth cfg)"
      and tok: "fetchCsrfToken (?w2\<lparr>CSRF_TOKEN := Null\<rparr>) = (Inr t, w3)" for t w3
  proof -
    let ?c2 = "with_csrf t (cache_bust (now w3) (c1\<lparr>retriedOnce := True\<rparr>))"
    have "apiClient_session cfg w = dispatchRequest ?c2 (tick (w3\<lparr>CSRF_TOKEN := t\<rparr>))"
      unfolding run using that f response_rejected_retry [of c1 ?w2 t w3 d] by simp
    then have "apiClient_session cfg w =
                 (settle ?c2 (next_outcome w3),
                  after_call Axios ?c2 (tick (w3\<lparr>CSRF_TOKEN := t\<rparr>)))"
      by (simp add: dispatchRequest_eq next_outcome_def)
    moreover have "map_of (headers ?c2) ''X-CSRF-TOKEN'' = Some t"
      by (simp add: map_of_obj_set)
    moreover have "truthy t" using tok by (rule fetchCsrfToken_truthy)
    ultimately show ?thesis using f by (intro exI [of _ ?c2]) simp
  qed
  from a b c show ?thesis by blast
qed

theorem recovery_retries_once_witness:
  "request_interceptor_session put_status rejected_twice =
     (Inr first_attempt, tick rejected_twice) \<and>
   settle first_attempt (next_outcome (tick rejected_twice)) =
     Inl (AxiosError (Some 403) Null first_attempt) \<and>
   \<not> retriedOnce put_status \<and> \<not> isSafeMethod (meth put_status) \<and>
   fst (fetchCsrfToken (after_first\<lparr>CSRF_TOKEN := Null\<rparr>)) = Inr (JStr ''t1'') \<and>
   is403 (fst (apiClient_session put_status rejected_twice)) \<and>
   sent_lines (snd (apiClient_session put_status rejected_twice)) =
     [(Axios, Some ''put'', [Lit ''/api/inout/orders/'', Val (Finite 482), Lit ''/status''],
       JObj [(''status'', JStr ''COMPLETED'')]),
      (Fetch, None, [Lit ''/api/csrf''], Undefined),
      (Axios, Some ''put'', [Lit ''/api/inout/orders/'', Val (Finite 482), Lit ''/status''],
       JObj [(''status'', JStr ''COMPLETED'')])]"
proof -
  have unsafe: "\<not> retriedOnce put_status \<and> \<not> isSafeMethod (meth put_status)"
    by (simp add: put_status_def request_config_def isSafeMethod_put)
  have first: "request_interceptor_session put_status rejected_twice =
                 (Inr first_attempt, tick rejected_twice)"
    using unsafe
    by (simp add: request_interceptor_session_cached first_attempt_def rejected_twice_def idle_def)
  have rejected: "settle first_attempt (next_outcome (tick rejected_twice)) =
                    Inl (AxiosError (Some 403) Null first_attempt)"
    by (simp add: settle_def next_outcome_def rejected_twice_def idle_def ok_def axios_data_def)
  obtain w3 where tok: "fetchCsrfToken ((after_call Axios first_attempt (tick rejected_twice))
                          \<lparr>CSRF_TOKEN := Null\<rparr>) = (Inr (JStr ''t1''), w3)"
    and w3: "w3 = snd (fetchCsrfToken (after_first\<lparr>CSRF_TOKEN := Null\<rparr>))"
    using rejected_twice_token
    by (cases "fetchCsrfToken (after_first\<lparr>CSRF_TOKEN := Null\<rparr>)") (simp add: after_first_def)
  from recovery_retries_once [OF first rejected] unsafe tok
  obtain c2 where "apiClient_session put_status rejected_twice =
      (settle c2 (next_outcome w3), after_call Axios c2 (tick (w3\<lparr>CSRF_TOKEN := JStr ''t1''\<rparr>)))"
    by blast
  then have "is403 (fst (apiClient_session put_status rejected_twice))"
    using rejected_twice_second
    by (simp add: w3 settle_def ok_def is403_def)
  with first rejected unsafe rejected_twice_token rejected_twice_requests show ?thesis
    by simp
qed

text \<open>
  C3 (the code departs from the claim in the session variant). The claim has
  \<open>totalLoadTime\<close> measured from the start of the consolidated attempt. In the session
  variant the fallback is a function of its own that reads the clock again: in the run
  below the clock reads 0 when \<open>fetchDashboardAll\<close> starts and 5300 when it ends, and
  the snapshot reports 300. (The bearer variant keeps the first reading:
  \<open>bearer_load_time_from_start\<close>.)
\<close>

theorem session_fallback_restarts_clock:
  "now slow_consolidated = 0 \<and>
   now (snd (fetchDashboardAll Session fmt_ko slow_consolidated)) = 5300 \<and>
   get_prop (snapshot_of (fetchDashboardAll Session fmt_ko slow_consolidated)) ''totalLoadTime'' =
     stamp 300"
  using session_load_time session_clock_at_end by (simp add: slow_consolidated_def idle_def)

text \<open>
  C4 (the code departs from the claim). When all six reads of the fallback succeed,
  the claim has the snapshot shaped like the payload of the consolidated endpoint,
  field for field. The interface \<open>DashboardData\<close> declares its users as
  \<open>UserResponse\<close>, with \<open>lastLogin\<close> and \<open>joinedAt\<close>; the users of the fallback
  snapshot have six fields only, in both variants, also when the backend sent all
  eight. (When one of the six reads fails the aggregate fails:
  \<open>fallback_all_or_nothing\<close>.)
\<close>

theorem fallback_users_lack_fields:
  "object_keys backend_user = UserResponse_fields \<and>
   map object_keys
     (array_items (get_prop (snapshot_of (fetchDashboardAll Bearer fmt_ko slow_consolidated)) ''users'')) =
   [[''userId'', ''username'', ''email'', ''fullName'', ''role'', ''status'']] \<and>
   map object_keys
     (array_items (get_prop (snapshot_of (fetchDashboardAll Session fmt_ko slow_consolidated)) ''users'')) =
   [[''userId'', ''username'', ''email'', ''fullName'', ''role'', ''status'']] \<and>
   [''userId'', ''username'', ''email'', ''fullName'', ''role'', ''status''] \<noteq> UserResponse_fields"
  using fallback_users_session fallback_users_bearer backend_user_keys
  by (simp add: UserResponse_fields_def)





text \<open>
  C7 (the code departs from the claim). The claim has \<open>fetchCsrfToken\<close> fail with its
  own error whenever neither endpoint yields a token. Only the call of the primary
  endpoint is inside \<open>try\<close>: when the secondary endpoint is out of reach as well, the
  exception of \<open>fetch\<close> leaves the function and the error
  \<open>CSRF token endpoint not reachable\<close> is never raised. The two endpoints are called
  in the order claimed.
\<close>

theorem unreachable_token_endpoints:
  "fst (fetchCsrfToken idle) = Inl TypeError \<and>
   fst (fetchCsrfToken idle) \<noteq> Inl (Error ''CSRF token endpoint not reachable'') \<and>
   sent_lines (snd (fetchCsrfToken idle)) =
     [(Fetch, None, [Lit ''/api/csrf''], Undefined), (Fetch, None, [Lit ''/csrf''], Undefined)]"
  using offline_acquisition offline_acquisition_calls by simp




text \<open>
  C9. Every inventory entry returned by \<open>fetchInventoryData\<close> carries the quantity of
  the backend entry at the same position, and its status label is determined by that
  quantity alone: at most 0 gives the danger label, above 0 and at most 10 the short
  label, above 10 the normal label. A payload that is absent or empty gives the empty
  list.
\<close>

theorem fetchInventoryData_status:
  assumes "fetchInventoryData fmt (Inr backend) = Inr items"
  shows "(backend = None \<or> backend = Some [] \<longrightarrow> items = []) \<and>
         (\<forall>bs. backend = Some bs \<longrightarrow>
            length items = length bs \<and>
            (\<forall>i < length bs.
               inv_quantity (items ! i) = b_quantity (bs ! i) \<and>
               (\<forall>q. inv_quantity (items ! i) = Finite q \<longrightarrow>
                  (q \<le> 0 \<longrightarrow> inv_status (items ! i) = label_danger) \<and>
                  (0 < q \<and> q \<le> 10 \<longrightarrow> inv_status (items ! i) = label_short) \<and>
                  (10 < q \<longrightarrow> inv_status (items ! i) = label_normal))))"
proof (cases backend)
  case None
  with assms show ?thesis by (simp add: fetchInventoryData_def)
next
  case (Some bs)
  with assms have items: "items = map (to_inventory_item fmt) (enumerate 0 bs)"
    by (auto simp: fetchInventoryData_def split: if_splits)
  have "inv_quantity (items ! i) = b_quantity (bs ! i) \<and>
        inv_status (items ! i) = inventory_status (b_quantity (bs ! i))" if "i < length bs" for i
    using that by (simp add: items nth_enumerate_eq to_inventory_item_def)
  then show ?thesis
    using Some by (auto simp: items inventory_status_Finite)
qed

theorem fetchInventoryData_status_witness:
  "fetchInventoryData fmt_ko (Inr (Some three_balances)) = Inr three_items \<and>
   map inv_quantity three_items = [Finite 0, Finite 10, Finite 11] \<and>
   map inv_status three_items = [label_danger, label_short, label_normal] \<and>
   fetchInventoryData fmt_ko (Inr (Some [])) = Inr []"
proof -
  have run: "fetchInventoryData fmt_ko (Inr (Some three_balances)) = Inr three_items"
    by (simp add: fetchInventoryData_def three_items_def three_balances_def)
  have empty: "fetchInventoryData fmt_ko (Inr (Some [])) = Inr []"
    by (simp add: fetchInventoryData_def)
  have len: "length three_balances = 3"
    by (simp add: three_balances_def)
  have q: "inv_quantity (three_items ! 0) = Finite 0" "inv_quantity (three_items ! 1) = Finite 10"
    "inv_quantity (three_items ! 2) = Finite 11"
    by (simp_all add: three_items_def three_balances_def to_inventory_item_def balance_def)
  have l3: "length three_items = 3"
    by (simp add: three_items_def three_balances_def)
  note th = fetchInventoryData_status [OF run]
  have s0: "inv_status (three_items ! 0) = label_danger"
    using th q(1) len by force
  have s1: "inv_status (three_items ! 1) = label_short"
    using th q(2) len by force
  have s2: "inv_status (three_items ! 2) = label_normal"
    using th q(3) len by force
  have m: "map f three_items = [f (three_items ! 0), f (three_items ! 1), f (three_items ! 2)]"
    for f :: "InventoryItem \<Rightarrow> 'b"
    using list_of_three [of "map f three_items"] l3 by simp
  show ?thesis
    using run empty s0 s1 s2 q by (simp add: m [of inv_status] m [of inv_quantity])
qed

text \<open>
  C10. \<open>fetchInOutData\<close> returns exactly the line items of the orders whose status is
  \<open>COMPLETED\<close>, one record per line item and in the order of the payload: the record of
  line item \<open>i\<close> of order \<open>r\<close> has the identifier \<open>orderId-i\<close>, the done label and the
  individual code \<open>ORDER-orderId-itemId\<close>; every returned record comes from a line
  item of a completed order.
\<close>

theorem fetchInOutData_completed_lines:
  assumes "fetchInOutData fmt (Inr orders) = Inr recs"
  shows "map line_view recs = completed_lines orders \<and>
         (\<forall>x \<in> set recs. rec_status x = label_done \<and>
            (\<exists>r \<in> set orders. o_status r = ''COMPLETED'' \<and>
               (\<exists>i < length (o_items r).
                  rec_id x = string_of_int (o_orderId r) @ ''-'' @ string_of_nat i \<and>
                  rec_individualCode x =
                    ''ORDER-'' @ string_of_int (o_orderId r) @ ''-'' @
                      string_of_int (i_itemId (o_items r ! i)))))"
proof -
  from assms have recs:
    "recs = concat (map (\<lambda>r. map (to_record fmt r) (enumerate 0 (o_items r)))
                     (filter is_completed orders))"
    by (simp add: fetchInOutData_def is_completed_def [abs_def])
  have view: "map line_view recs = completed_lines orders"
    unfolding recs completed_lines_def by (rule concat_lines_view) simp
  have "rec_status x = label_done \<and>
        (\<exists>r \<in> set orders. o_status r = ''COMPLETED'' \<and>
           (\<exists>i < length (o_items r).
              rec_id x = string_of_int (o_orderId r) @ ''-'' @ string_of_nat i \<and>
              rec_individualCode x =
                ''ORDER-'' @ string_of_int (o_orderId r) @ ''-'' @
                  string_of_int (i_itemId (o_items r ! i))))" if "x \<in> set recs" for x
  proof -
    from that obtain r i it where r: "r \<in> set orders" "is_completed r"
      and it: "(i, it) \<in> set (enumerate 0 (o_items r))" and x: "x = to_record fmt r (i, it)"
      unfolding recs by auto
    from it have i: "i < length (o_items r)" "it = o_items r ! i"
      by (auto simp: in_set_enumerate_eq)
    from to_record_view [OF r(2), of fmt i it] x
    have "rec_id x = line_id r i" "rec_status x = label_done" "rec_individualCode x = line_code r it"
      by (simp_all add: line_view_def)
    with r i show ?thesis
      unfolding line_id_def line_code_def is_completed_def by blast
  qed
  with view show ?thesis by blast
qed

theorem fetchInOutData_completed_lines_witness:
  "fetchInOutData fmt_ko (Inr two_orders) = Inr two_records \<and>
   map line_view two_records =
     [(''482-0'', label_done, ''ORDER-482-9''), (''482-1'', label_done, ''ORDER-482-10'')]"
proof -
  have run: "fetchInOutData fmt_ko (Inr two_orders) = Inr two_records"
    by (simp add: two_records_def fetchInOutData_def)
  have spec: "completed_lines two_orders =
     [(''482-0'', label_done, ''ORDER-482-9''), (''482-1'', label_done, ''ORDER-482-10'')]"
    by code_simp
  from fetchInOutData_completed_lines [OF run] spec run show ?thesis by simp
qed

end
